theory Spec2Isabelle
  imports Complex_Main "HOL-Library.Sublist"
begin

section \<open>Python values, exceptions and the interpreter's library\<close>

text \<open>
  The rows handed to the response parser are \<open>List[List[Any]]\<close>: every cell is an arbitrary
  Python value. A float is either a finite number or one of the three special values; the
  finite ones are kept as reals (every finite double is a real number).
\<close>

datatype pyfloat = Finite real | PosInf | NegInf | NaN

datatype pyval =
    PNone
  | PBool bool
  | PInt int
  | PFloat pyfloat
  | PStr string
  | PList "pyval list"
  | PDict "(pyval \<times> pyval) list"
  | PDatetime int

text \<open>
  Exception classes. \<open>Exception\<close> stands for an instance of any \<open>Exception\<close> subclass that
  no handler of the program names. \<open>issubclass c d\<close> is what \<open>except d\<close> tests on an
  exception of class \<open>c\<close>: \<open>JSONDecodeError\<close> derives from \<open>ValueError\<close>, the two Azure
  errors from \<open>HttpResponseError\<close>, and the three kinds of
  \<open>src/models/exceptions.py\<close> from \<open>AzureFunctionSDKError\<close>.
\<close>

datatype exc_class =
    Exception
  | IndexError
  | TypeError
  | ValueError
  | JSONDecodeError
  | OverflowError
  | HttpResponseError
  | ResourceNotFoundError
  | ClientAuthenticationError
  | AzureFunctionSDKError
  | ConfigurationError
  | AuthenticationError
  | QueryError

fun issubclass :: "exc_class \<Rightarrow> exc_class \<Rightarrow> bool" where
  "issubclass c d =
     (c = d \<or> d = Exception
      \<or> (c = JSONDecodeError \<and> d = ValueError)
      \<or> ((c = ResourceNotFoundError \<or> c = ClientAuthenticationError) \<and> d = HttpResponseError)
      \<or> ((c = ConfigurationError \<or> c = AuthenticationError \<or> c = QueryError)
          \<and> d = AzureFunctionSDKError))"

text \<open>An exception is its class and its message (\<open>str(e)\<close>).\<close>

datatype exc = Exc (exc_cls: exc_class) (exc_msg: string)

text \<open>
  The parts of the interpreter and its standard library that the program calls and that
  are not code of the repository are parameters: \<open>str.upper\<close> and \<open>str.lower\<close>, reading an
  integer or a float from a string, rounding an integer beyond \<open>2 ^ 53\<close> to a float
  (\<open>None\<close> is \<open>OverflowError\<close>), \<open>json.loads\<close>, and the text of the message of an exception
  that one of the built-ins \<open>int\<close>, \<open>float\<close>, \<open>row[i]\<close> and \<open>timedelta\<close> raises for a value.
\<close>

datatype builtin = Int_call | Float_call | Getitem_call | Timedelta_call

record pylib =
  str_upper :: "string \<Rightarrow> string"
  str_lower :: "string \<Rightarrow> string"
  int_of_str :: "string \<Rightarrow> int option"
  float_of_str :: "string \<Rightarrow> pyfloat option"
  float_of_big_int :: "int \<Rightarrow> pyfloat option"
  json_loads :: "string \<Rightarrow> exc + pyval"
  err_text :: "builtin \<Rightarrow> exc_class \<Rightarrow> pyval \<Rightarrow> string"

definition raise :: "pylib \<Rightarrow> builtin \<Rightarrow> exc_class \<Rightarrow> pyval \<Rightarrow> exc + 'a" where
  "raise L b c v = Inl (Exc c (err_text L b c v))"

text \<open>Sequencing of two computations that may raise.\<close>

definition and_then :: "exc + 'a \<Rightarrow> ('a \<Rightarrow> exc + 'b) \<Rightarrow> exc + 'b" where
  "and_then m f = (case m of Inl e \<Rightarrow> Inl e | Inr x \<Rightarrow> f x)"

text \<open>Truth value testing (\<open>if v\<close>, \<open>v or d\<close>).\<close>

fun truthy :: "pyval \<Rightarrow> bool" where
  "truthy PNone = False"
| "truthy (PBool b) = b"
| "truthy (PInt n) = (n \<noteq> 0)"
| "truthy (PFloat f) = (f \<noteq> Finite 0)"
| "truthy (PStr s) = (s \<noteq> [])"
| "truthy (PList xs) = (xs \<noteq> [])"
| "truthy (PDict kvs) = (kvs \<noteq> [])"
| "truthy (PDatetime t) = True"

definition py_or :: "pyval \<Rightarrow> pyval \<Rightarrow> pyval" where
  "py_or a b = (if truthy a then a else b)"

text \<open>\<open>int(v)\<close>: a float is truncated towards zero.\<close>

definition truncate :: "real \<Rightarrow> int" where
  "truncate x = (if 0 \<le> x then \<lfloor>x\<rfloor> else \<lceil>x\<rceil>)"

fun py_int :: "pylib \<Rightarrow> pyval \<Rightarrow> exc + int" where
  "py_int L (PInt n) = Inr n"
| "py_int L (PBool b) = Inr (if b then 1 else 0)"
| "py_int L (PFloat (Finite x)) = Inr (truncate x)"
| "py_int L (PFloat NaN) = raise L Int_call ValueError (PFloat NaN)"
| "py_int L (PFloat PosInf) = raise L Int_call OverflowError (PFloat PosInf)"
| "py_int L (PFloat NegInf) = raise L Int_call OverflowError (PFloat NegInf)"
| "py_int L (PStr s) =
     (case int_of_str L s of Some n \<Rightarrow> Inr n | None \<Rightarrow> raise L Int_call ValueError (PStr s))"
| "py_int L v = raise L Int_call TypeError v"

text \<open>\<open>float(v)\<close>: an integer up to \<open>2 ^ 53\<close> in absolute value is a float exactly.\<close>

fun py_float :: "pylib \<Rightarrow> pyval \<Rightarrow> exc + pyfloat" where
  "py_float L (PFloat f) = Inr f"
| "py_float L (PInt n) =
     (if \<bar>n\<bar> \<le> 2 ^ 53 then Inr (Finite (of_int n))
      else (case float_of_big_int L n of
              Some f \<Rightarrow> Inr f
            | None \<Rightarrow> raise L Float_call OverflowError (PInt n)))"
| "py_float L (PBool b) = Inr (Finite (if b then 1 else 0))"
| "py_float L (PStr s) =
     (case float_of_str L s of Some f \<Rightarrow> Inr f | None \<Rightarrow> raise L Float_call ValueError (PStr s))"
| "py_float L v = raise L Float_call TypeError v"

text \<open>\<open>row[i]\<close> on a list.\<close>

definition getitem :: "pylib \<Rightarrow> pyval list \<Rightarrow> nat \<Rightarrow> exc + pyval" where
  "getitem L row i = (if i < length row then Inr (row ! i) else raise L Getitem_call IndexError (PList row))"

section \<open>Entities (\<open>src/models/entities.py\<close>)\<close>

text \<open>
  A timestamp of a parsed record is the value of the row, or the reading of the clock
  (\<open>datetime.now()\<close>) taken while parsing, which is kept symbolic.
\<close>

datatype timestamp = Of_row pyval | Clock_now

record FunctionAppLogEntry =
  timestamp :: timestamp
  level :: string
  message :: pyval
  function_name :: pyval
  invocation_id :: pyval
  exception_type :: pyval
  exception_message :: pyval
  custom_properties :: pyval

record FunctionAppMetrics =
  m_timestamp :: timestamp
  total_invocations :: int
  successful_invocations :: int
  failed_invocations :: int
  avg_duration_ms :: pyfloat
  unique_functions :: int

text \<open>The dictionary of one error group, with its four fixed keys.\<close>

record error_info =
  e_function_name :: pyval
  e_exception_type :: pyval
  e_exception_message :: pyval
  count :: int

record ErrorAnalysis =
  errors :: "error_info list"
  total_errors :: int
  unique_error_types :: int
  time_range_hours :: int
  function_app_name :: string

text \<open>The dictionaries of the performance and the timeline parsers.\<close>

record perf_info =
  p_function_name :: pyval
  invocation_count :: int
  p_avg_duration_ms :: pyfloat
  min_duration_ms :: pyfloat
  max_duration_ms :: pyfloat
  p95_duration_ms :: pyfloat
  success_rate :: pyfloat

record timeline_point =
  t_timestamp :: timestamp
  requests :: int
  t_errors :: int
  traces :: int

section \<open>Response parser (\<open>src/core/response_parser.py\<close>)\<close>

text \<open>\<open>row[0] if row[0] else datetime.now()\<close>\<close>

definition timestamp_of :: "pyval \<Rightarrow> timestamp" where
  "timestamp_of v = (if truthy v then Of_row v else Clock_now)"

text \<open>\<open>int(row[i] or 0)\<close> and \<open>float(row[i] or 0)\<close>\<close>

definition int_or_0 :: "pylib \<Rightarrow> pyval list \<Rightarrow> nat \<Rightarrow> exc + int" where
  "int_or_0 L row i = and_then (getitem L row i) (\<lambda>v. py_int L (py_or v (PInt 0)))"

definition float_or_0 :: "pylib \<Rightarrow> pyval list \<Rightarrow> nat \<Rightarrow> exc + pyfloat" where
  "float_or_0 L row i = and_then (getitem L row i) (\<lambda>v. py_float L (py_or v (PInt 0)))"

text \<open>\<open>row[i] or "Unknown"\<close>\<close>

definition or_unknown :: "pylib \<Rightarrow> pyval list \<Rightarrow> nat \<Rightarrow> exc + pyval" where
  "or_unknown L row i = and_then (getitem L row i) (\<lambda>v. Inr (py_or v (PStr ''Unknown'')))"

text \<open>The handler \<open>except (IndexError, TypeError, ValueError)\<close> of every row loop.\<close>

definition caught :: "exc \<Rightarrow> bool" where
  "caught e = (issubclass (exc_cls e) IndexError \<or> issubclass (exc_cls e) TypeError
               \<or> issubclass (exc_cls e) ValueError)"

text \<open>
  The row loop shared by four of the five parsers: \<open>conv\<close> is the body of the \<open>try\<close>, \<open>out\<close>
  the list built so far, \<open>warnings\<close> the messages given to \<open>logger.warning\<close> so far. An
  exception that the handler does not name leaves the loop and the parser.
\<close>

fun parse_loop ::
  "(pyval list \<Rightarrow> exc + 'a) \<Rightarrow> string \<Rightarrow> pyval list list \<Rightarrow> 'a list \<Rightarrow> string list
     \<Rightarrow> string list \<times> (exc + 'a list)" where
  "parse_loop conv label [] out warnings = (warnings, Inr out)"
| "parse_loop conv label (row # rows) out warnings =
     (case conv row of
        Inr x \<Rightarrow> parse_loop conv label rows (out @ [x]) warnings
      | Inl e \<Rightarrow>
          if caught e then parse_loop conv label rows out (warnings @ [label @ exc_msg e])
          else (warnings, Inl e))"

subsection \<open>\<open>parse_log_response\<close>\<close>

definition severity_map :: "int \<rightharpoonup> string" where
  "severity_map =
     [0 \<mapsto> ''Verbose'', 1 \<mapsto> ''Information'', 2 \<mapsto> ''Warning'', 3 \<mapsto> ''Error'']"

text \<open>\<open>severity_map.get(int(v), "Unknown") if v is not None else "Unknown"\<close>\<close>

definition severity_label :: "pylib \<Rightarrow> pyval \<Rightarrow> exc + string" where
  "severity_label L v =
     (if v \<noteq> PNone
      then and_then (py_int L v)
             (\<lambda>n. Inr (case severity_map n of Some s \<Rightarrow> s | None \<Rightarrow> ''Unknown''))
      else Inr ''Unknown'')"

definition custom_props_of :: "pylib \<Rightarrow> pyval list \<Rightarrow> exc + pyval" where
  "custom_props_of L row =
     (if 5 < length row \<and> truthy (row ! 5) then
        (case row ! 5 of
           PStr s \<Rightarrow>
             (case json_loads L s of
                Inr v \<Rightarrow> Inr v
              | Inl e \<Rightarrow>
                  if issubclass (exc_cls e) JSONDecodeError \<or> issubclass (exc_cls e) TypeError
                  then Inr (PDict [(PStr ''raw'', PStr s)])
                  else Inl e)
         | v \<Rightarrow> Inr v)
      else Inr PNone)"

definition log_row :: "pylib \<Rightarrow> pyval list \<Rightarrow> exc + FunctionAppLogEntry" where
  "log_row L row =
     and_then (custom_props_of L row) (\<lambda>custom_props.
     and_then (getitem L row 0) (\<lambda>r0.
     and_then (getitem L row 1) (\<lambda>r1.
     and_then (severity_label L r1) (\<lambda>lvl.
     and_then (getitem L row 2) (\<lambda>r2.
     and_then (getitem L row 3) (\<lambda>r3.
     and_then (getitem L row 4) (\<lambda>r4.
       Inr \<lparr> timestamp = timestamp_of r0,
             level = lvl,
             message = py_or r2 (PStr []),
             function_name = r3,
             invocation_id = r4,
             exception_type = PNone,
             exception_message = PNone,
             custom_properties = custom_props \<rparr>)))))))"

definition parse_log_response ::
  "pylib \<Rightarrow> pyval list list \<Rightarrow> string list \<times> (exc + FunctionAppLogEntry list)" where
  "parse_log_response L rows =
     parse_loop (log_row L) ''Failed to parse log row: '' rows [] []"

subsection \<open>\<open>parse_metrics_response\<close>\<close>

definition metrics_row :: "pylib \<Rightarrow> pyval list \<Rightarrow> exc + FunctionAppMetrics" where
  "metrics_row L row =
     and_then (getitem L row 0) (\<lambda>r0.
     and_then (int_or_0 L row 1) (\<lambda>n_total.
     and_then (int_or_0 L row 2) (\<lambda>successful.
     and_then (int_or_0 L row 3) (\<lambda>failed.
     and_then (float_or_0 L row 4) (\<lambda>avg.
     and_then (int_or_0 L row 5) (\<lambda>uniq.
       Inr \<lparr> m_timestamp = timestamp_of r0,
             total_invocations = n_total,
             successful_invocations = successful,
             failed_invocations = failed,
             avg_duration_ms = avg,
             unique_functions = uniq \<rparr>))))))"

definition parse_metrics_response ::
  "pylib \<Rightarrow> pyval list list \<Rightarrow> string list \<times> (exc + FunctionAppMetrics list)" where
  "parse_metrics_response L rows =
     parse_loop (metrics_row L) ''Failed to parse metrics row: '' rows [] []"

subsection \<open>\<open>parse_error_analysis_response\<close>\<close>

definition error_row :: "pylib \<Rightarrow> pyval list \<Rightarrow> exc + error_info" where
  "error_row L row =
     and_then (or_unknown L row 0) (\<lambda>f.
     and_then (or_unknown L row 1) (\<lambda>t.
     and_then (or_unknown L row 2) (\<lambda>m.
     and_then (int_or_0 L row 3) (\<lambda>c.
       Inr \<lparr> e_function_name = f, e_exception_type = t, e_exception_message = m,
             count = c \<rparr>))))"

text \<open>The loop of the error analysis keeps the running sum \<open>total_errors\<close> beside the list.\<close>

fun error_loop ::
  "pylib \<Rightarrow> pyval list list \<Rightarrow> error_info list \<Rightarrow> int \<Rightarrow> string list
     \<Rightarrow> string list \<times> (exc + error_info list \<times> int)" where
  "error_loop L [] errs total_errs warnings = (warnings, Inr (errs, total_errs))"
| "error_loop L (row # rows) errs total_errs warnings =
     (case error_row L row of
        Inr info \<Rightarrow> error_loop L rows (errs @ [info]) (total_errs + count info) warnings
      | Inl e \<Rightarrow>
          if caught e
          then error_loop L rows errs total_errs (warnings @ [''Failed to parse error row: '' @ exc_msg e])
          else (warnings, Inl e))"

definition parse_error_analysis_response ::
  "pylib \<Rightarrow> pyval list list \<Rightarrow> string \<Rightarrow> int \<Rightarrow> string list \<times> (exc + ErrorAnalysis)" where
  "parse_error_analysis_response L rows app_name hours_back =
     (case error_loop L rows [] 0 [] of
        (warnings, Inl e) \<Rightarrow> (warnings, Inl e)
      | (warnings, Inr (errs, total_errs)) \<Rightarrow>
          (warnings,
           Inr \<lparr> errors = errs,
                 total_errors = total_errs,
                 unique_error_types = int (length errs),
                 time_range_hours = hours_back,
                 function_app_name = app_name \<rparr>))"

subsection \<open>\<open>parse_function_performance_response\<close> and \<open>parse_timeline_response\<close>\<close>

definition performance_row :: "pylib \<Rightarrow> pyval list \<Rightarrow> exc + perf_info" where
  "performance_row L row =
     and_then (or_unknown L row 0) (\<lambda>f.
     and_then (int_or_0 L row 1) (\<lambda>n.
     and_then (float_or_0 L row 2) (\<lambda>a.
     and_then (float_or_0 L row 3) (\<lambda>mn.
     and_then (float_or_0 L row 4) (\<lambda>mx.
     and_then (float_or_0 L row 5) (\<lambda>p95.
     and_then (float_or_0 L row 6) (\<lambda>sr.
       Inr \<lparr> p_function_name = f, invocation_count = n, p_avg_duration_ms = a,
             min_duration_ms = mn, max_duration_ms = mx, p95_duration_ms = p95,
             success_rate = sr \<rparr>)))))))"

definition parse_function_performance_response ::
  "pylib \<Rightarrow> pyval list list \<Rightarrow> string list \<times> (exc + perf_info list)" where
  "parse_function_performance_response L rows =
     parse_loop (performance_row L) ''Failed to parse performance row: '' rows [] []"

definition timeline_row :: "pylib \<Rightarrow> pyval list \<Rightarrow> exc + timeline_point" where
  "timeline_row L row =
     and_then (getitem L row 0) (\<lambda>r0.
     and_then (int_or_0 L row 1) (\<lambda>rq.
     and_then (int_or_0 L row 2) (\<lambda>er.
     and_then (int_or_0 L row 3) (\<lambda>tr.
       Inr \<lparr> t_timestamp = timestamp_of r0, requests = rq, t_errors = er, traces = tr \<rparr>))))"

definition parse_timeline_response ::
  "pylib \<Rightarrow> pyval list list \<Rightarrow> string list \<times> (exc + timeline_point list)" where
  "parse_timeline_response L rows =
     parse_loop (timeline_row L) ''Failed to parse timeline row: '' rows [] []"

section \<open>Query builder (\<open>src/core/query_builder.py\<close>)\<close>

text \<open>
  Text: the newline, the two quote characters, \<open>sep.join(parts)\<close>, and the decimal
  rendering of an integer in an f-string.
\<close>

definition NL :: string where
  "NL = [CHR 0x0A]"

definition sq :: string where
  "sq = [CHR 0x27]"

definition dq :: string where
  "dq = [CHR 0x22]"

fun join :: "string \<Rightarrow> string list \<Rightarrow> string" where
  "join sep [] = []"
| "join sep [x] = x"
| "join sep (x # y # ys) = x @ sep @ join sep (y # ys)"

fun digits :: "nat \<Rightarrow> string" where
  "digits n =
     (if n < 10 then [''0123456789'' ! n]
      else digits (n div 10) @ [''0123456789'' ! (n mod 10)])"

declare digits.simps [simp del]

definition str_of_int :: "int \<Rightarrow> string" where
  "str_of_int i = (if i < 0 then ''-'' @ digits (nat (- i)) else digits (nat i))"

text \<open>\<open>if s:\<close> on an \<open>Optional[str]\<close>: neither \<open>None\<close> nor the empty string.\<close>

definition given :: "string option \<Rightarrow> bool" where
  "given s = (case s of None \<Rightarrow> False | Some t \<Rightarrow> t \<noteq> [])"

subsection \<open>\<open>build_logs_query\<close>\<close>

definition level_map :: "string \<rightharpoonup> string" where
  "level_map =
     [''Error'' \<mapsto> ''3'', ''Warning'' \<mapsto> ''2'', ''Information'' \<mapsto> ''1'',
      ''Verbose'' \<mapsto> ''0'']"

text \<open>The clause appended for a level: \<open>severity_map.get(log_level, log_level)\<close>.\<close>

definition severity_clause :: "string \<Rightarrow> string" where
  "severity_clause log_level =
     ''| where severityLevel == ''
       @ (case level_map log_level of Some severity \<Rightarrow> severity | None \<Rightarrow> log_level)"

definition noise_clauses :: "string list" where
  "noise_clauses =
     [''| where message != '' @ dq @ ''WorkerStatusRequest completed'' @ dq,
      ''| where message !contains '' @ dq @ ''Host lock lease acquired'' @ dq,
      ''| where message !contains '' @ dq @ ''Host lock lease renewed'' @ dq]"

definition query_parts ::
  "string \<Rightarrow> int \<Rightarrow> string option \<Rightarrow> string option \<Rightarrow> int \<Rightarrow> bool \<Rightarrow> string list" where
  "query_parts application_name hours_back log_level func_name limit exclude_noise =
     [''traces'',
      ''| where timestamp > ago('' @ str_of_int hours_back @ ''h)'',
      ''| where cloud_RoleName contains '' @ sq @ application_name @ sq]
     @ (if given log_level then [severity_clause (the log_level)] else [])
     @ (if given func_name
        then [''| where operation_Name contains '' @ sq @ the func_name @ sq
                @ '' or message contains '' @ sq @ the func_name @ sq]
        else [])
     @ (if exclude_noise then noise_clauses else [])
     @ [''| limit '' @ str_of_int limit,
        ''| project timestamp, severityLevel, message, operation_Name, operation_Id, customDimensions'',
        ''| order by timestamp desc'']"

definition build_logs_query ::
  "string \<Rightarrow> int \<Rightarrow> string option \<Rightarrow> string option \<Rightarrow> int \<Rightarrow> bool \<Rightarrow> string" where
  "build_logs_query application_name hours_back log_level func_name limit exclude_noise =
     join NL (query_parts application_name hours_back log_level func_name limit exclude_noise)"

subsection \<open>The four multi-line queries\<close>

definition build_metrics_query :: "string \<Rightarrow> int \<Rightarrow> int \<Rightarrow> string" where
  "build_metrics_query app_name hours_back granularity_hours =
     join NL
       [[],
        ''        requests'',
        ''        | where timestamp > ago('' @ str_of_int hours_back @ ''h)'',
        ''        | where cloud_RoleName contains '' @ sq @ app_name @ sq,
        ''        | summarize '',
        ''            TotalRequests = count(),'',
        ''            SuccessfulRequests = countif(success == true),'',
        ''            FailedRequests = countif(success == false),'',
        ''            AvgDuration = avg(duration),'',
        ''            UniqueOperations = dcount(operation_Name)'',
        ''        by bin(timestamp, '' @ str_of_int granularity_hours @ ''h)'',
        ''        | order by timestamp desc'',
        ''        '']"

definition build_error_analysis_query :: "string \<Rightarrow> int \<Rightarrow> int \<Rightarrow> string" where
  "build_error_analysis_query app_name hours_back limit =
     join NL
       [[],
        ''        union traces, exceptions'',
        ''        | where timestamp > ago('' @ str_of_int hours_back @ ''h)'',
        ''        | where cloud_RoleName contains '' @ sq @ app_name @ sq,
        ''        | where severityLevel >= 3 or itemType == '' @ dq @ ''exception'' @ dq,
        ''        | summarize ErrorCount = count() by '',
        ''            operation_Name, '',
        ''            type = iff(itemType == '' @ dq @ ''exception'' @ dq @ '', type, '' @ dq @ ''trace'' @ dq @ ''),'',
        ''            message = iff(itemType == '' @ dq @ ''exception'' @ dq @ '', outerMessage, message)'',
        ''        | order by ErrorCount desc'',
        ''        | limit '' @ str_of_int limit,
        ''        '']"

definition build_function_performance_query :: "string \<Rightarrow> int \<Rightarrow> string option \<Rightarrow> string" where
  "build_function_performance_query app_name hours_back func_name =
     join NL
       [[],
        ''        requests'',
        ''        | where timestamp > ago('' @ str_of_int hours_back @ ''h)'',
        ''        | where cloud_RoleName contains '' @ sq @ app_name @ sq,
        ''        '']
     @ (if given func_name
        then join NL [[], ''| where operation_Name contains '' @ sq @ the func_name @ sq]
        else [])
     @ join NL
       [[],
        ''        | summarize '',
        ''            InvocationCount = count(),'',
        ''            AvgDuration = avg(duration),'',
        ''            MinDuration = min(duration),'',
        ''            MaxDuration = max(duration),'',
        ''            P95Duration = percentile(duration, 95),'',
        ''            SuccessRate = round(100.0 * countif(success == true) / count(), 2)'',
        ''        by operation_Name'',
        ''        | order by InvocationCount desc'',
        ''        '']"

definition build_timeline_query :: "string \<Rightarrow> int \<Rightarrow> int \<Rightarrow> string" where
  "build_timeline_query app_name hours_back granularity_minutes =
     join NL
       [[],
        ''        union requests, traces, exceptions'',
        ''        | where timestamp > ago('' @ str_of_int hours_back @ ''h)'',
        ''        | where cloud_RoleName contains '' @ sq @ app_name @ sq,
        ''        | summarize '',
        ''            Requests = countif(itemType == '' @ dq @ ''request'' @ dq @ ''),'',
        ''            Errors = countif(severityLevel >= 3 or itemType == '' @ dq @ ''exception'' @ dq @ ''),'',
        ''            Traces = countif(itemType == '' @ dq @ ''trace'' @ dq @ '')'',
        ''        by bin(timestamp, '' @ str_of_int granularity_minutes @ ''m)'',
        ''        | order by timestamp desc'',
        ''        '']"

text \<open>The query that \<open>LogsService.search_logs\<close> writes itself.\<close>

definition search_query :: "string \<Rightarrow> string \<Rightarrow> int \<Rightarrow> int \<Rightarrow> string" where
  "search_query application_name search_term hours_back limit =
     join NL
       [[],
        ''            traces'',
        ''            | where timestamp > ago('' @ str_of_int hours_back @ ''h)'',
        ''            | where cloud_RoleName contains '' @ sq @ application_name @ sq,
        ''            | where message contains '' @ sq @ search_term @ sq,
        ''            | limit '' @ str_of_int limit,
        ''            | project timestamp, severityLevel, message, operation_Name, operation_Id, customDimensions'',
        ''            | order by timestamp desc'',
        ''            '']"

section \<open>Configuration (\<open>src/models/config.py\<close>)\<close>

record EnvironmentConfig =
  subscription_id :: string
  resource_group :: string
  app_insights_name :: string

text \<open>\<open>repr\<close> of a list of the field names (plain identifiers).\<close>

definition repr_names :: "string list \<Rightarrow> string" where
  "repr_names ks = ''['' @ join '', '' (map (\<lambda>k. sq @ k @ sq) ks) @ '']''"

text \<open>
  \<open>Config.get_environment_config\<close>; \<open>getenv\<close> is the process environment (\<open>os.getenv\<close>).
\<close>

definition get_environment_config ::
  "pylib \<Rightarrow> (string \<Rightarrow> string option) \<Rightarrow> string \<Rightarrow> exc + EnvironmentConfig" where
  "get_environment_config L getenv environment =
     (let env_upper = str_upper L environment;
          sub = getenv (env_upper @ ''_SUBSCRIPTION_ID'');
          rg = getenv (env_upper @ ''_RESOURCE_GROUP'');
          ai = getenv (env_upper @ ''_APP_INSIGHTS_NAME'')
      in if \<not> (given sub \<and> given rg \<and> given ai) then
           let missing =
                 map fst (filter (\<lambda>(k, v). \<not> given v)
                   [(''subscription_id'', sub), (''resource_group'', rg),
                    (''app_insights_name'', ai)])
           in Inl (Exc ValueError
                    (''Missing required environment variables for '' @ environment @ '': ''
                       @ repr_names missing))
         else Inr \<lparr> subscription_id = the sub, resource_group = the rg,
                     app_insights_name = the ai \<rparr>)"

text \<open>
  The two configuration steps of \<open>AzureObservabilitySDK.__init__\<close>
  (\<open>src/core/azure_observability_sdk.py\<close>) for an environment given as a string: the name
  must be a value of the enumeration \<open>Environment\<close>, and a \<open>ValueError\<close> of
  \<open>get_environment_config\<close> becomes a \<open>ConfigurationError\<close>.
\<close>

definition environment_values :: "string list" where
  "environment_values = [''optumdev'', ''optumqa'']"

definition sdk_load_config ::
  "pylib \<Rightarrow> (string \<Rightarrow> string option) \<Rightarrow> string \<Rightarrow> exc + EnvironmentConfig" where
  "sdk_load_config L getenv environment =
     (if str_lower L environment \<notin> set environment_values then
        Inl (Exc ConfigurationError
              (''Invalid environment: '' @ environment @ ''. Valid options: ''
                 @ repr_names environment_values))
      else
        (case get_environment_config L getenv (str_lower L environment) of
           Inr config \<Rightarrow> Inr config
         | Inl e \<Rightarrow>
             if issubclass (exc_cls e) ValueError
             then Inl (Exc ConfigurationError (''Configuration error: '' @ exc_msg e))
             else Inl e))"

section \<open>The Azure SDK seen from the program\<close>

text \<open>
  The clients of the Azure SDK are not code of the repository. A client object is an
  opaque handle; what the constructors and the methods the program calls return or raise
  is a parameter \<open>A\<close>. A result of \<open>query_resource\<close> carries its status and its tables, a table
  being its rows.
\<close>

datatype handle = Handle

datatype LogsQueryStatus = SUCCESS | PARTIAL | FAILURE

record LogsQueryResult =
  status :: LogsQueryStatus
  tables :: "pyval list list list"

record SiteConfig =
  python_version :: pyval
  node_version :: pyval
  net_framework_version :: pyval

record Site =
  site_name :: string
  site_resource_group :: pyval
  site_location :: pyval
  site_kind :: "string option"
  site_state :: pyval
  default_host_name :: pyval
  site_config :: "SiteConfig option"

record azure =
  az_WebSiteManagementClient :: "exc + handle"
  az_LogsQueryClient :: "exc + handle"
  az_query_resource :: "string \<Rightarrow> string \<Rightarrow> int \<Rightarrow> exc + LogsQueryResult"
  az_list_by_resource_group :: "string \<Rightarrow> exc + Site list"
  az_list_functions :: "string \<Rightarrow> string \<Rightarrow> exc + string list"
  az_get :: "string \<Rightarrow> string \<Rightarrow> exc + Site"
  az_list_application_settings :: "string \<Rightarrow> string \<Rightarrow> exc + (string \<times> string) list option"

text \<open>
  \<open>timedelta(hours=h)\<close> raises \<open>OverflowError\<close> when the number of days leaves
  \<open>[-999999999, 999999999]\<close>; the time span is kept as its hours.
\<close>

definition timedelta_hours :: "pylib \<Rightarrow> int \<Rightarrow> exc + int" where
  "timedelta_hours L h =
     (if - 999999999 \<le> h div 24 \<and> h div 24 \<le> 999999999 then Inr h
      else raise L Timedelta_call OverflowError (PInt h))"

section \<open>Client manager (\<open>src/core/azure_client.py\<close>)\<close>

text \<open>The two slots \<open>_web_client\<close> and \<open>_logs_client\<close> hold the handle once it is built.\<close>

record AzureClientManager =
  config :: EnvironmentConfig
  cached_web_client :: "handle option"
  cached_logs_client :: "handle option"

definition web_client :: "azure \<Rightarrow> AzureClientManager \<Rightarrow> (exc + handle) \<times> AzureClientManager" where
  "web_client A m =
     (case cached_web_client m of
        Some h \<Rightarrow> (Inr h, m)
      | None \<Rightarrow>
          (case az_WebSiteManagementClient A of
             Inr h \<Rightarrow> (Inr h, m\<lparr>cached_web_client := Some h\<rparr>)
           | Inl e \<Rightarrow>
               if issubclass (exc_cls e) ClientAuthenticationError
               then (Inl (Exc AuthenticationError
                            (''Failed to authenticate web client: '' @ exc_msg e)), m)
               else (Inl e, m)))"

definition logs_client :: "azure \<Rightarrow> AzureClientManager \<Rightarrow> (exc + handle) \<times> AzureClientManager" where
  "logs_client A m =
     (case cached_logs_client m of
        Some h \<Rightarrow> (Inr h, m)
      | None \<Rightarrow>
          (case az_LogsQueryClient A of
             Inr h \<Rightarrow> (Inr h, m\<lparr>cached_logs_client := Some h\<rparr>)
           | Inl e \<Rightarrow>
               if issubclass (exc_cls e) ClientAuthenticationError
               then (Inl (Exc AuthenticationError
                            (''Failed to authenticate logs client: '' @ exc_msg e)), m)
               else (Inl e, m)))"

definition get_app_insights_resource_id :: "AzureClientManager \<Rightarrow> string" where
  "get_app_insights_resource_id m =
     ''/subscriptions/'' @ subscription_id (config m)
       @ ''/resourceGroups/'' @ resource_group (config m)
       @ ''/providers/Microsoft.Insights/components/'' @ app_insights_name (config m)"

section \<open>Domain services (\<open>src/services\<close>)\<close>

text \<open>
  A service owns one client manager, which is its state: an operation takes it and
  returns it beside its result. What the services write to their logger is left out.
  An argument with a default value is \<open>Omitted\<close> or \<open>Passed\<close>.
\<close>

datatype 'a arg = Omitted | Passed 'a

definition arg_or :: "'a arg \<Rightarrow> 'a \<Rightarrow> 'a" where
  "arg_or a d = (case a of Omitted \<Rightarrow> d | Passed x \<Rightarrow> x)"

text \<open>
  The statements every query operation runs after it has built its query:
  \<open>timespan = timedelta(hours=hours_back)\<close> and
  \<open>self.azure_client.logs_client.query_resource(resource_id=..., query=..., timespan=...)\<close>.
\<close>

definition run_query ::
  "pylib \<Rightarrow> azure \<Rightarrow> AzureClientManager \<Rightarrow> string \<Rightarrow> int
     \<Rightarrow> (exc + LogsQueryResult) \<times> AzureClientManager" where
  "run_query L A m query hours_back =
     (case timedelta_hours L hours_back of
        Inl e \<Rightarrow> (Inl e, m)
      | Inr timespan \<Rightarrow>
          (case logs_client A m of
             (Inl e, m') \<Rightarrow> (Inl e, m')
           | (Inr h, m') \<Rightarrow>
               (az_query_resource A (get_app_insights_resource_id m') query timespan, m')))"

text \<open>\<open>response.status == LogsQueryStatus.SUCCESS and response.tables\<close>\<close>

definition has_tables :: "LogsQueryResult \<Rightarrow> bool" where
  "has_tables response = (status response = SUCCESS \<and> tables response \<noteq> [])"

text \<open>
  The handlers: \<open>except HttpResponseError\<close> followed by \<open>except Exception\<close>, each raising a
  \<open>QueryError\<close> with its own text, and the single \<open>except Exception\<close>.
\<close>

definition query_error2 :: "string \<Rightarrow> string \<Rightarrow> exc \<Rightarrow> exc" where
  "query_error2 http_text other_text e =
     (if issubclass (exc_cls e) HttpResponseError then Exc QueryError (http_text @ exc_msg e)
      else Exc QueryError (other_text @ exc_msg e))"

definition query_error1 :: "string \<Rightarrow> exc \<Rightarrow> exc" where
  "query_error1 text e = Exc QueryError (text @ exc_msg e)"

definition handle_with ::
  "(exc \<Rightarrow> exc) \<Rightarrow> (exc + 'a) \<times> AzureClientManager \<Rightarrow> (exc + 'a) \<times> AzureClientManager" where
  "handle_with handler r = (case r of (Inl e, m) \<Rightarrow> (Inl (handler e), m) | (Inr x, m) \<Rightarrow> (Inr x, m))"

subsection \<open>\<open>LogsService\<close>\<close>

text \<open>The query of \<open>get_logs\<close>, with the defaults of its signature.\<close>

definition get_logs_query ::
  "string \<Rightarrow> int arg \<Rightarrow> string option arg \<Rightarrow> string option arg \<Rightarrow> int arg \<Rightarrow> string" where
  "get_logs_query application_name hours_back log_level func_name limit =
     build_logs_query application_name (arg_or hours_back 1)
       (arg_or log_level (Some ''Information'')) (arg_or func_name None) (arg_or limit 100) True"

definition logs_of_response ::
  "pylib \<Rightarrow> (exc + LogsQueryResult) \<times> AzureClientManager
     \<Rightarrow> (exc + FunctionAppLogEntry list) \<times> AzureClientManager" where
  "logs_of_response L r =
     (case r of
        (Inl e, m) \<Rightarrow> (Inl e, m)
      | (Inr response, m) \<Rightarrow>
          if has_tables response
          then (snd (parse_log_response L (hd (tables response))), m)
          else (Inr [], m))"

definition get_logs ::
  "pylib \<Rightarrow> azure \<Rightarrow> AzureClientManager \<Rightarrow> string \<Rightarrow> int arg \<Rightarrow> string option arg
     \<Rightarrow> string option arg \<Rightarrow> int arg \<Rightarrow> (exc + FunctionAppLogEntry list) \<times> AzureClientManager" where
  "get_logs L A m application_name hours_back log_level func_name limit =
     handle_with
       (query_error2 ''Failed to retrieve logs: '' ''Unexpected error retrieving logs: '')
       (logs_of_response L
          (run_query L A m
             (get_logs_query application_name hours_back log_level func_name limit)
             (arg_or hours_back 1)))"

definition get_error_logs ::
  "pylib \<Rightarrow> azure \<Rightarrow> AzureClientManager \<Rightarrow> string \<Rightarrow> int arg \<Rightarrow> int arg
     \<Rightarrow> (exc + FunctionAppLogEntry list) \<times> AzureClientManager" where
  "get_error_logs L A m application_name hours_back limit =
     get_logs L A m application_name (Passed (arg_or hours_back 24)) (Passed (Some ''Error''))
       Omitted (Passed (arg_or limit 50))"

definition search_logs ::
  "pylib \<Rightarrow> azure \<Rightarrow> AzureClientManager \<Rightarrow> string \<Rightarrow> string \<Rightarrow> int arg \<Rightarrow> int arg
     \<Rightarrow> (exc + FunctionAppLogEntry list) \<times> AzureClientManager" where
  "search_logs L A m application_name search_term hours_back limit =
     handle_with (query_error1 ''Failed to search logs: '')
       (logs_of_response L
          (run_query L A m
             (search_query application_name search_term (arg_or hours_back 24) (arg_or limit 100))
             (arg_or hours_back 24)))"

definition get_function_logs ::
  "pylib \<Rightarrow> azure \<Rightarrow> AzureClientManager \<Rightarrow> string \<Rightarrow> string \<Rightarrow> int arg \<Rightarrow> int arg
     \<Rightarrow> (exc + FunctionAppLogEntry list) \<times> AzureClientManager" where
  "get_function_logs L A m application_name func_name hours_back limit =
     get_logs L A m application_name (Passed (arg_or hours_back 24)) Omitted
       (Passed (Some func_name)) (Passed (arg_or limit 100))"

subsection \<open>\<open>MetricsService\<close>\<close>

definition get_metrics ::
  "pylib \<Rightarrow> azure \<Rightarrow> AzureClientManager \<Rightarrow> string \<Rightarrow> int arg \<Rightarrow> int arg
     \<Rightarrow> (exc + FunctionAppMetrics list) \<times> AzureClientManager" where
  "get_metrics L A m app_name hours_back granularity_hours =
     handle_with
       (query_error2 ''Failed to retrieve metrics: '' ''Unexpected error retrieving metrics: '')
       (case run_query L A m
               (build_metrics_query app_name (arg_or hours_back 24) (arg_or granularity_hours 1))
               (arg_or hours_back 24) of
          (Inl e, m') \<Rightarrow> (Inl e, m')
        | (Inr response, m') \<Rightarrow>
            if has_tables response
            then (snd (parse_metrics_response L (hd (tables response))), m')
            else (Inr [], m'))"

definition analyze_errors ::
  "pylib \<Rightarrow> azure \<Rightarrow> AzureClientManager \<Rightarrow> string \<Rightarrow> int arg \<Rightarrow> int arg
     \<Rightarrow> (exc + ErrorAnalysis) \<times> AzureClientManager" where
  "analyze_errors L A m app_name hours_back limit =
     handle_with
       (query_error2 ''Failed to analyze errors: '' ''Unexpected error analyzing errors: '')
       (case run_query L A m
               (build_error_analysis_query app_name (arg_or hours_back 24) (arg_or limit 20))
               (arg_or hours_back 24) of
          (Inl e, m') \<Rightarrow> (Inl e, m')
        | (Inr response, m') \<Rightarrow>
            if has_tables response
            then (snd (parse_error_analysis_response L (hd (tables response)) app_name
                         (arg_or hours_back 24)), m')
            else (Inr \<lparr> errors = [], total_errors = 0, unique_error_types = 0,
                         time_range_hours = arg_or hours_back 24,
                         function_app_name = app_name \<rparr>, m'))"

definition get_function_performance ::
  "pylib \<Rightarrow> azure \<Rightarrow> AzureClientManager \<Rightarrow> string \<Rightarrow> int arg \<Rightarrow> string option arg
     \<Rightarrow> (exc + perf_info list) \<times> AzureClientManager" where
  "get_function_performance L A m app_name hours_back func_name =
     handle_with (query_error1 ''Failed to get function performance: '')
       (case run_query L A m
               (build_function_performance_query app_name (arg_or hours_back 24)
                  (arg_or func_name None))
               (arg_or hours_back 24) of
          (Inl e, m') \<Rightarrow> (Inl e, m')
        | (Inr response, m') \<Rightarrow>
            if has_tables response
            then (snd (parse_function_performance_response L (hd (tables response))), m')
            else (Inr [], m'))"

definition get_timeline_analysis ::
  "pylib \<Rightarrow> azure \<Rightarrow> AzureClientManager \<Rightarrow> string \<Rightarrow> int arg \<Rightarrow> int arg
     \<Rightarrow> (exc + timeline_point list) \<times> AzureClientManager" where
  "get_timeline_analysis L A m app_name hours_back granularity_minutes =
     handle_with (query_error1 ''Failed to get timeline analysis: '')
       (case run_query L A m
               (build_timeline_query app_name (arg_or hours_back 24)
                  (arg_or granularity_minutes 15))
               (arg_or hours_back 24) of
          (Inl e, m') \<Rightarrow> (Inl e, m')
        | (Inr response, m') \<Rightarrow>
            if has_tables response
            then (snd (parse_timeline_response L (hd (tables response))), m')
            else (Inr [], m'))"

subsection \<open>\<open>FunctionAppService\<close>\<close>

text \<open>\<open>app.kind and 'functionapp' in app.kind.lower()\<close>\<close>

definition is_function_app :: "pylib \<Rightarrow> Site \<Rightarrow> bool" where
  "is_function_app L app =
     (given (site_kind app) \<and> sublist ''functionapp'' (str_lower L (the (site_kind app))))"

text \<open>
  The three handlers of the two listing operations: \<open>ResourceNotFoundError\<close> keeps only
  the name, the others the message of the exception.
\<close>

definition query_error3 :: "string \<Rightarrow> string \<Rightarrow> string \<Rightarrow> exc \<Rightarrow> exc" where
  "query_error3 not_found_text http_text other_text e =
     (if issubclass (exc_cls e) ResourceNotFoundError then Exc QueryError not_found_text
      else if issubclass (exc_cls e) HttpResponseError
      then Exc QueryError (http_text @ exc_msg e)
      else Exc QueryError (other_text @ exc_msg e))"

definition list_function_apps ::
  "pylib \<Rightarrow> azure \<Rightarrow> AzureClientManager \<Rightarrow> (exc + string list) \<times> AzureClientManager" where
  "list_function_apps L A m =
     handle_with
       (query_error3 (''Resource group not found: '' @ resource_group (config m))
          ''Failed to list Function Apps: '' ''Unexpected error listing Function Apps: '')
       (case web_client A m of
          (Inl e, m') \<Rightarrow> (Inl e, m')
        | (Inr h, m') \<Rightarrow>
            (case az_list_by_resource_group A (resource_group (config m')) of
               Inl e \<Rightarrow> (Inl e, m')
             | Inr apps \<Rightarrow> (Inr (map site_name (filter (is_function_app L) apps)), m')))"

definition list_functions ::
  "azure \<Rightarrow> AzureClientManager \<Rightarrow> string \<Rightarrow> (exc + string list) \<times> AzureClientManager" where
  "list_functions A m app_name =
     handle_with
       (query_error3 (''Function App not found: '' @ app_name)
          ''Failed to list functions: '' ''Unexpected error listing functions: '')
       (case web_client A m of
          (Inl e, m') \<Rightarrow> (Inl e, m')
        | (Inr h, m') \<Rightarrow>
            (case az_list_functions A (resource_group (config m')) app_name of
               Inl e \<Rightarrow> (Inl e, m')
             | Inr names \<Rightarrow> (Inr names, m')))"

text \<open>The dictionary \<open>app_info\<close>, with its fixed keys.\<close>

record app_info =
  info_name :: string
  info_resource_group :: pyval
  info_location :: pyval
  info_kind :: "string option"
  info_state :: pyval
  host_name :: pyval
  runtime_version :: pyval
  app_settings :: "(string \<times> string) list"

text \<open>\<open>getattr(app.site_config, field, None)\<close>\<close>

definition getattr_or_None :: "SiteConfig option \<Rightarrow> (SiteConfig \<Rightarrow> pyval) \<Rightarrow> pyval" where
  "getattr_or_None sc field = (case sc of None \<Rightarrow> PNone | Some c \<Rightarrow> field c)"

text \<open>
  The inner \<open>try\<close> of \<open>get_function_app_info\<close>: any exception of the settings call leaves
  the settings empty.
\<close>

definition settings_or_empty ::
  "azure \<Rightarrow> AzureClientManager \<Rightarrow> string \<Rightarrow> (string \<times> string) list \<times> AzureClientManager" where
  "settings_or_empty A m app_name =
     (case web_client A m of
        (Inl e, m') \<Rightarrow> ([], m')
      | (Inr h, m') \<Rightarrow>
          (case az_list_application_settings A (resource_group (config m')) app_name of
             Inl e \<Rightarrow> ([], m')
           | Inr None \<Rightarrow> ([], m')
           | Inr (Some props) \<Rightarrow> (props, m')))"

definition get_function_app_info ::
  "azure \<Rightarrow> AzureClientManager \<Rightarrow> string \<Rightarrow> (exc + app_info) \<times> AzureClientManager" where
  "get_function_app_info A m app_name =
     handle_with
       (\<lambda>e. if issubclass (exc_cls e) ResourceNotFoundError
            then Exc QueryError (''Function App not found: '' @ app_name)
            else Exc QueryError (''Failed to get Function App info: '' @ exc_msg e))
       (case web_client A m of
          (Inl e, m') \<Rightarrow> (Inl e, m')
        | (Inr h, m') \<Rightarrow>
            (case az_get A (resource_group (config m')) app_name of
               Inl e \<Rightarrow> (Inl e, m')
             | Inr app \<Rightarrow>
                 (case settings_or_empty A m' app_name of
                    (settings, m'') \<Rightarrow>
                      (Inr \<lparr> info_name = site_name app,
                             info_resource_group = site_resource_group app,
                             info_location = site_location app,
                             info_kind = site_kind app,
                             info_state = site_state app,
                             host_name = default_host_name app,
                             runtime_version =
                               py_or (getattr_or_None (site_config app) python_version)
                                 (py_or (getattr_or_None (site_config app) node_version)
                                    (getattr_or_None (site_config app) net_framework_version)),
                             app_settings = settings \<rparr>, m''))))"

text \<open>\<open>validate_function_app_exists\<close>: \<open>except Exception: return False\<close>.\<close>

definition validate_function_app_exists ::
  "pylib \<Rightarrow> azure \<Rightarrow> AzureClientManager \<Rightarrow> string \<Rightarrow> (exc + bool) \<times> AzureClientManager" where
  "validate_function_app_exists L A m app_name =
     (case list_function_apps L A m of
        (Inr function_apps, m') \<Rightarrow> (Inr (app_name \<in> set function_apps), m')
      | (Inl e, m') \<Rightarrow> (Inr False, m'))"

section \<open>Notions used in the statements\<close>

subsection \<open>Rows and batches\<close>

text \<open>
  The records of the rows that convert, in the order of the rows; the warnings of the
  rows that do not; a batch in which every failing row fails with an exception that the
  handler of the loop names.
\<close>

definition parsed_of :: "(pyval list \<Rightarrow> exc + 'a) \<Rightarrow> pyval list list \<Rightarrow> 'a list" where
  "parsed_of conv rows = concat (map (\<lambda>r. case conv r of Inr x \<Rightarrow> [x] | Inl e \<Rightarrow> []) rows)"

definition warnings_of :: "(pyval list \<Rightarrow> exc + 'a) \<Rightarrow> string \<Rightarrow> pyval list list \<Rightarrow> string list" where
  "warnings_of conv label rows =
     concat (map (\<lambda>r. case conv r of Inr x \<Rightarrow> [] | Inl e \<Rightarrow> [label @ exc_msg e]) rows)"

definition all_caught :: "(pyval list \<Rightarrow> exc + 'a) \<Rightarrow> pyval list list \<Rightarrow> bool" where
  "all_caught conv rows =
     list_all (\<lambda>r. case conv r of Inr x \<Rightarrow> True | Inl e \<Rightarrow> caught e) rows"

text \<open>
  Auxiliary: in \<open>one_caught_failure conv rows k e\<close> the conversion of row \<open>k\<close> raises \<open>e\<close>, which
  the handler catches, and every other row of the batch converts.
\<close>

definition others :: "nat \<Rightarrow> 'a list \<Rightarrow> 'a list" where
  "others k xs = take k xs @ drop (Suc k) xs"

definition converts :: "(pyval list \<Rightarrow> exc + 'a) \<Rightarrow> pyval list \<Rightarrow> bool" where
  "converts conv row = (case conv row of Inr x \<Rightarrow> True | Inl e \<Rightarrow> False)"

definition one_caught_failure ::
  "(pyval list \<Rightarrow> exc + 'a) \<Rightarrow> pyval list list \<Rightarrow> nat \<Rightarrow> exc \<Rightarrow> bool" where
  "one_caught_failure conv rows k e =
     (k < length rows \<and> conv (rows ! k) = Inl e \<and> caught e
      \<and> list_all (converts conv) (others k rows))"

text \<open>A cell that holds an integer (a float) or is null.\<close>

definition opt_int :: "int option \<Rightarrow> pyval" where
  "opt_int c = (case c of None \<Rightarrow> PNone | Some n \<Rightarrow> PInt n)"

definition opt_float :: "pyfloat option \<Rightarrow> pyval" where
  "opt_float c = (case c of None \<Rightarrow> PNone | Some f \<Rightarrow> PFloat f)"

text \<open>
  What a parser does with the cell of a column: it passes the value through, or it calls
  \<open>int(v or 0)\<close>, \<open>float(v or 0)\<close> or, for the severity of a log row, \<open>int(v)\<close> unless \<open>v\<close> is
  \<open>None\<close>. The columns each parser reads, in the order of the cells:
\<close>

datatype column = Pass_through | Int_column | Float_column | Severity_column

definition log_schema :: "column list" where
  "log_schema = [Pass_through, Severity_column, Pass_through, Pass_through, Pass_through]"

definition metrics_schema :: "column list" where
  "metrics_schema =
     [Pass_through, Int_column, Int_column, Int_column, Float_column, Int_column]"

definition error_schema :: "column list" where
  "error_schema = [Pass_through, Pass_through, Pass_through, Int_column]"

definition performance_schema :: "column list" where
  "performance_schema =
     [Pass_through, Int_column, Float_column, Float_column, Float_column, Float_column,
      Float_column]"

definition timeline_schema :: "column list" where
  "timeline_schema = [Pass_through, Int_column, Int_column, Int_column]"

text \<open>
  A value in a numeric column, read from the data alone. It is \<open>Good\<close> when it is a number
  or a numeral; \<open>Rejected\<close> when it is of a wrong type (\<open>None\<close>, a list, a dictionary, a
  datetime) or is not a number (NaN, a string that is not a numeral); \<open>Unguarded\<close> when it
  is a number out of range: an infinite float where an integer is expected, an integer
  too large for a float. A null or otherwise false value of a column read with \<open>or 0\<close>
  counts as the number 0.
\<close>

datatype verdict = Good | Rejected | Unguarded

fun int_verdict :: "pylib \<Rightarrow> pyval \<Rightarrow> verdict" where
  "int_verdict L (PInt n) = Good"
| "int_verdict L (PBool b) = Good"
| "int_verdict L (PFloat (Finite x)) = Good"
| "int_verdict L (PFloat NaN) = Rejected"
| "int_verdict L (PFloat PosInf) = Unguarded"
| "int_verdict L (PFloat NegInf) = Unguarded"
| "int_verdict L (PStr s) = (if int_of_str L s = None then Rejected else Good)"
| "int_verdict L v = Rejected"

fun float_verdict :: "pylib \<Rightarrow> pyval \<Rightarrow> verdict" where
  "float_verdict L (PFloat f) = Good"
| "float_verdict L (PInt n) =
     (if \<bar>n\<bar> \<le> 2 ^ 53 \<or> float_of_big_int L n \<noteq> None then Good else Unguarded)"
| "float_verdict L (PBool b) = Good"
| "float_verdict L (PStr s) = (if float_of_str L s = None then Rejected else Good)"
| "float_verdict L v = Rejected"

fun classify :: "pylib \<Rightarrow> column \<Rightarrow> pyval \<Rightarrow> verdict" where
  "classify L Pass_through v = Good"
| "classify L Int_column v = int_verdict L (if truthy v then v else PInt 0)"
| "classify L Float_column v = float_verdict L (if truthy v then v else PInt 0)"
| "classify L Severity_column v = (if v = PNone then Good else int_verdict L v)"

definition verdicts :: "pylib \<Rightarrow> column list \<Rightarrow> pyval list \<Rightarrow> verdict list" where
  "verdicts L schema row = map (\<lambda>(c, v). classify L c v) (zip schema row)"

text \<open>
  A row is well-formed for a parser when it has a cell for every column the parser reads
  and every such cell is good. It is malformed when it has too few cells or a rejected
  cell, and none of its cells is unguarded. Cells beyond the columns are not looked at.
\<close>

definition well_formed_row :: "pylib \<Rightarrow> column list \<Rightarrow> pyval list \<Rightarrow> bool" where
  "well_formed_row L schema row =
     (length schema \<le> length row \<and> list_all (\<lambda>d. d = Good) (verdicts L schema row))"

definition malformed_row :: "pylib \<Rightarrow> column list \<Rightarrow> pyval list \<Rightarrow> bool" where
  "malformed_row L schema row =
     (list_all (\<lambda>d. d \<noteq> Unguarded) (verdicts L schema row)
      \<and> (length row < length schema \<or> \<not> list_all (\<lambda>d. d = Good) (verdicts L schema row)))"

text \<open>
  The sixth cell of a log row, the custom properties, is optional. It is in order when it
  is absent, false, not a string, or a string that \<open>json.loads\<close> reads or refuses with a
  \<open>JSONDecodeError\<close>.
\<close>

definition props_cell_ok :: "pylib \<Rightarrow> pyval list \<Rightarrow> bool" where
  "props_cell_ok L row =
     (length row \<le> 5
      \<or> (case row ! 5 of
            PStr s \<Rightarrow>
              s = []
              \<or> (case json_loads L s of
                    Inr v \<Rightarrow> True
                  | Inl e \<Rightarrow> issubclass (exc_cls e) JSONDecodeError)
          | v \<Rightarrow> True))"

definition well_formed_log :: "pylib \<Rightarrow> pyval list \<Rightarrow> bool" where
  "well_formed_log L row = (well_formed_row L log_schema row \<and> props_cell_ok L row)"

definition malformed_log :: "pylib \<Rightarrow> pyval list \<Rightarrow> bool" where
  "malformed_log L row = (malformed_row L log_schema row \<and> props_cell_ok L row)"

text \<open>Row \<open>k\<close> is the one malformed row of the batch, every other row is well-formed.\<close>

definition exactly_one ::
  "(pyval list \<Rightarrow> bool) \<Rightarrow> (pyval list \<Rightarrow> bool) \<Rightarrow> pyval list list \<Rightarrow> nat \<Rightarrow> bool" where
  "exactly_one bad good rows k =
     (k < length rows \<and> bad (rows ! k) \<and> list_all good (others k rows))"

text \<open>
  Auxiliary: the exception of a computation, if any; the exception of converting one
  cell; and the first exception of reading the cells of the columns from index \<open>i\<close> on.
\<close>

definition outcome :: "exc + 'a \<Rightarrow> exc option" where
  "outcome r = (case r of Inl e \<Rightarrow> Some e | Inr x \<Rightarrow> None)"

fun convert :: "pylib \<Rightarrow> column \<Rightarrow> pyval \<Rightarrow> exc option" where
  "convert L Pass_through v = None"
| "convert L Int_column v = outcome (py_int L (py_or v (PInt 0)))"
| "convert L Float_column v = outcome (py_float L (py_or v (PInt 0)))"
| "convert L Severity_column v = outcome (severity_label L v)"

fun reads :: "pylib \<Rightarrow> pyval list \<Rightarrow> nat \<Rightarrow> column list \<Rightarrow> exc option" where
  "reads L row i [] = None"
| "reads L row i (c # cs) =
     (case getitem L row i of
        Inl e \<Rightarrow> Some e
      | Inr v \<Rightarrow> (case convert L c v of Some e \<Rightarrow> Some e | None \<Rightarrow> reads L row (Suc i) cs))"





text \<open>
  The severity labels as the specification words them: the four levels, and \<open>Unknown\<close> for
  every other integer and for a missing value.
\<close>

definition spec_severity_label :: "int option \<Rightarrow> string" where
  "spec_severity_label s =
     (case s of
        None \<Rightarrow> ''Unknown''
      | Some n \<Rightarrow>
          if n = 0 then ''Verbose'' else if n = 1 then ''Information''
          else if n = 2 then ''Warning'' else if n = 3 then ''Error'' else ''Unknown'')"

text \<open>The names of the configuration fields whose variable is unset or empty.\<close>

definition missing_fields :: "string option \<Rightarrow> string option \<Rightarrow> string option \<Rightarrow> string list" where
  "missing_fields sub rg ai =
     (if given sub then [] else [''subscription_id''])
     @ (if given rg then [] else [''resource_group''])
     @ (if given ai then [] else [''app_insights_name''])"

subsection \<open>The query operations of the services, as one family\<close>

text \<open>
  A call of one of the eight query operations with its arguments, the query text and the
  window it sends, and what it returns: a list of records or, for \<open>analyze_errors\<close>, an
  \<open>ErrorAnalysis\<close> object.
\<close>

datatype query_call =
    Get_logs string "int arg" "string option arg" "string option arg" "int arg"
  | Get_error_logs string "int arg" "int arg"
  | Search_logs string string "int arg" "int arg"
  | Get_function_logs string string "int arg" "int arg"
  | Get_metrics string "int arg" "int arg"
  | Analyze_errors string "int arg" "int arg"
  | Get_function_performance string "int arg" "string option arg"
  | Get_timeline_analysis string "int arg" "int arg"

datatype returned =
    Log_entries "FunctionAppLogEntry list"
  | Metrics_list "FunctionAppMetrics list"
  | Analysis ErrorAnalysis
  | Performance_list "perf_info list"
  | Timeline_list "timeline_point list"

fun is_empty_list :: "returned \<Rightarrow> bool" where
  "is_empty_list (Log_entries xs) = (xs = [])"
| "is_empty_list (Metrics_list xs) = (xs = [])"
| "is_empty_list (Analysis ea) = False"
| "is_empty_list (Performance_list xs) = (xs = [])"
| "is_empty_list (Timeline_list xs) = (xs = [])"

fun hours_of :: "query_call \<Rightarrow> int" where
  "hours_of (Get_logs app h lv fn lm) = arg_or h 1"
| "hours_of (Get_error_logs app h lm) = arg_or h 24"
| "hours_of (Search_logs app needle h lm) = arg_or h 24"
| "hours_of (Get_function_logs app fn h lm) = arg_or h 24"
| "hours_of (Get_metrics app h g) = arg_or h 24"
| "hours_of (Analyze_errors app h lm) = arg_or h 24"
| "hours_of (Get_function_performance app h fn) = arg_or h 24"
| "hours_of (Get_timeline_analysis app h g) = arg_or h 24"

fun query_of :: "query_call \<Rightarrow> string" where
  "query_of (Get_logs app h lv fn lm) = get_logs_query app h lv fn lm"
| "query_of (Get_error_logs app h lm) =
     get_logs_query app (Passed (arg_or h 24)) (Passed (Some ''Error'')) Omitted
       (Passed (arg_or lm 50))"
| "query_of (Search_logs app needle h lm) = search_query app needle (arg_or h 24) (arg_or lm 100)"
| "query_of (Get_function_logs app fn h lm) =
     get_logs_query app (Passed (arg_or h 24)) Omitted (Passed (Some fn)) (Passed (arg_or lm 100))"
| "query_of (Get_metrics app h g) = build_metrics_query app (arg_or h 24) (arg_or g 1)"
| "query_of (Analyze_errors app h lm) =
     build_error_analysis_query app (arg_or h 24) (arg_or lm 20)"
| "query_of (Get_function_performance app h fn) =
     build_function_performance_query app (arg_or h 24) (arg_or fn None)"
| "query_of (Get_timeline_analysis app h g) =
     build_timeline_query app (arg_or h 24) (arg_or g 15)"

definition as_returned :: "('a \<Rightarrow> returned) \<Rightarrow> (exc + 'a) \<times> AzureClientManager \<Rightarrow> exc + returned" where
  "as_returned wrap r = (case fst r of Inl e \<Rightarrow> Inl e | Inr x \<Rightarrow> Inr (wrap x))"

fun call :: "pylib \<Rightarrow> azure \<Rightarrow> AzureClientManager \<Rightarrow> query_call \<Rightarrow> exc + returned" where
  "call L A m (Get_logs app h lv fn lm) = as_returned Log_entries (get_logs L A m app h lv fn lm)"
| "call L A m (Get_error_logs app h lm) = as_returned Log_entries (get_error_logs L A m app h lm)"
| "call L A m (Search_logs app needle h lm) =
     as_returned Log_entries (search_logs L A m app needle h lm)"
| "call L A m (Get_function_logs app fn h lm) =
     as_returned Log_entries (get_function_logs L A m app fn h lm)"
| "call L A m (Get_metrics app h g) = as_returned Metrics_list (get_metrics L A m app h g)"
| "call L A m (Analyze_errors app h lm) = as_returned Analysis (analyze_errors L A m app h lm)"
| "call L A m (Get_function_performance app h fn) =
     as_returned Performance_list (get_function_performance L A m app h fn)"
| "call L A m (Get_timeline_analysis app h g) =
     as_returned Timeline_list (get_timeline_analysis L A m app h g)"

text \<open>The parser a call hands the rows of the first table to.\<close>

definition parsed_as :: "('a \<Rightarrow> returned) \<Rightarrow> string list \<times> (exc + 'a) \<Rightarrow> exc + returned" where
  "parsed_as wrap r = (case snd r of Inl e \<Rightarrow> Inl e | Inr x \<Rightarrow> Inr (wrap x))"

fun parse_for :: "pylib \<Rightarrow> query_call \<Rightarrow> pyval list list \<Rightarrow> exc + returned" where
  "parse_for L (Get_logs app h lv fn lm) rows = parsed_as Log_entries (parse_log_response L rows)"
| "parse_for L (Get_error_logs app h lm) rows = parsed_as Log_entries (parse_log_response L rows)"
| "parse_for L (Search_logs app needle h lm) rows =
     parsed_as Log_entries (parse_log_response L rows)"
| "parse_for L (Get_function_logs app fn h lm) rows =
     parsed_as Log_entries (parse_log_response L rows)"
| "parse_for L (Get_metrics app h g) rows = parsed_as Metrics_list (parse_metrics_response L rows)"
| "parse_for L (Analyze_errors app h lm) rows =
     parsed_as Analysis (parse_error_analysis_response L rows app (arg_or h 24))"
| "parse_for L (Get_function_performance app h fn) rows =
     parsed_as Performance_list (parse_function_performance_response L rows)"
| "parse_for L (Get_timeline_analysis app h g) rows =
     parsed_as Timeline_list (parse_timeline_response L rows)"

text \<open>What a call returns when the status of the query is not a success.\<close>

fun empty_result :: "query_call \<Rightarrow> returned" where
  "empty_result (Get_logs app h lv fn lm) = Log_entries []"
| "empty_result (Get_error_logs app h lm) = Log_entries []"
| "empty_result (Search_logs app needle h lm) = Log_entries []"
| "empty_result (Get_function_logs app fn h lm) = Log_entries []"
| "empty_result (Get_metrics app h g) = Metrics_list []"
| "empty_result (Analyze_errors app h lm) =
     Analysis \<lparr> errors = [], total_errors = 0, unique_error_types = 0,
                time_range_hours = arg_or h 24, function_app_name = app \<rparr>"
| "empty_result (Get_function_performance app h fn) = Performance_list []"
| "empty_result (Get_timeline_analysis app h g) = Timeline_list []"

text \<open>
  The query reaches the backend and comes back with \<open>response\<close>: the window is a valid
  \<open>timedelta\<close>, the logs client is there or can be built, and \<open>query_resource\<close> returns.
\<close>

definition answered :: "pylib \<Rightarrow> azure \<Rightarrow> AzureClientManager \<Rightarrow> query_call \<Rightarrow> LogsQueryResult \<Rightarrow> bool" where
  "answered L A m c response =
     (fst (run_query L A m (query_of c) (hours_of c)) = Inr response)"

text \<open>The three typed error kinds of \<open>src/models/exceptions.py\<close>.\<close>

definition typed_kind :: "exc \<Rightarrow> bool" where
  "typed_kind e =
     (exc_cls e = ConfigurationError \<or> exc_cls e = AuthenticationError \<or> exc_cls e = QueryError)"


section \<open>Instances for evaluation\<close>

text \<open>
  A library to evaluate the model at concrete inputs. It upper- and lower-cases the ASCII
  letters, reads plain decimal numerals, and has no JSON document; it agrees with CPython
  on the strings evaluated below.
\<close>

definition upper_char :: "char \<Rightarrow> char" where
  "upper_char c =
     (case map_of (zip ''abcdefghijklmnopqrstuvwxyz'' ''ABCDEFGHIJKLMNOPQRSTUVWXYZ'') c of
        Some u \<Rightarrow> u | None \<Rightarrow> c)"

definition lower_char :: "char \<Rightarrow> char" where
  "lower_char c =
     (case map_of (zip ''ABCDEFGHIJKLMNOPQRSTUVWXYZ'' ''abcdefghijklmnopqrstuvwxyz'') c of
        Some u \<Rightarrow> u | None \<Rightarrow> c)"

fun nat_of_digits :: "string \<Rightarrow> nat \<Rightarrow> nat option" where
  "nat_of_digits [] acc = Some acc"
| "nat_of_digits (c # cs) acc =
     (case map_of (zip ''0123456789'' [0, 1, 2, 3, 4, 5, 6, 7, 8, 9]) c of
        Some d \<Rightarrow> nat_of_digits cs (10 * acc + d)
      | None \<Rightarrow> None)"

definition plain_int_of_str :: "string \<Rightarrow> int option" where
  "plain_int_of_str s =
     (case s of
        [] \<Rightarrow> None
      | c # cs \<Rightarrow>
          if c = CHR ''-''
          then (if cs = [] then None else map_option (\<lambda>n. - int n) (nat_of_digits cs 0))
          else map_option int (nat_of_digits s 0))"

text \<open>
  The texts of CPython (3.10 and later) for the exceptions of the built-ins. \<open>py_repr\<close> is
  \<open>repr\<close> of a string of ASCII characters and \<open>type_name\<close> the name of the type of a value.
\<close>

definition repr_char :: "char \<Rightarrow> char \<Rightarrow> string" where
  "repr_char q c =
     (if c = CHR 0x5C then [CHR 0x5C, CHR 0x5C]
      else if c = q then [CHR 0x5C, q]
      else if c = CHR 0x0A then [CHR 0x5C, CHR ''n'']
      else if c = CHR 0x0D then [CHR 0x5C, CHR ''r'']
      else if c = CHR 0x09 then [CHR 0x5C, CHR ''t'']
      else if 32 \<le> (of_char c :: nat) \<and> (of_char c :: nat) < 127 then [c]
      else [CHR 0x5C, CHR ''x'', ''0123456789abcdef'' ! (of_char c div 16),
            ''0123456789abcdef'' ! (of_char c mod 16)])"

definition py_repr :: "string \<Rightarrow> string" where
  "py_repr s =
     (let q = (if CHR 0x27 \<in> set s \<and> CHR 0x22 \<notin> set s then CHR 0x22 else CHR 0x27)
      in q # concat (map (repr_char q) s) @ [q])"

fun type_name :: "pyval \<Rightarrow> string" where
  "type_name PNone = ''NoneType''"
| "type_name (PBool b) = ''bool''"
| "type_name (PInt n) = ''int''"
| "type_name (PFloat f) = ''float''"
| "type_name (PStr s) = ''str''"
| "type_name (PList xs) = ''list''"
| "type_name (PDict kvs) = ''dict''"
| "type_name (PDatetime t) = ''datetime.datetime''"

definition int_err_text :: "exc_class \<Rightarrow> pyval \<Rightarrow> string" where
  "int_err_text c v =
     (if c = ValueError then
        (case v of
           PStr s \<Rightarrow> ''invalid literal for int() with base 10: '' @ take 200 (py_repr s)
         | w \<Rightarrow> ''cannot convert float NaN to integer'')
      else if c = OverflowError then ''cannot convert float infinity to integer''
      else ''int() argument must be a string, a bytes-like object or a real number, not ''
             @ sq @ type_name v @ sq)"

definition float_err_text :: "exc_class \<Rightarrow> pyval \<Rightarrow> string" where
  "float_err_text c v =
     (if c = ValueError then
        (case v of
           PStr s \<Rightarrow> ''could not convert string to float: '' @ py_repr s
         | w \<Rightarrow> [])
      else if c = OverflowError then ''int too large to convert to float''
      else ''float() argument must be a string or a real number, not '' @ sq @ type_name v @ sq)"

definition timedelta_err_text :: "pyval \<Rightarrow> string" where
  "timedelta_err_text v =
     (case v of
        PInt h \<Rightarrow>
          if - (2 ^ 31) \<le> h div 24 \<and> h div 24 < 2 ^ 31
          then ''days='' @ str_of_int (h div 24) @ ''; must have magnitude <= 999999999''
          else ''Python int too large to convert to C int''
      | w \<Rightarrow> [])"

fun plain_err_text :: "builtin \<Rightarrow> exc_class \<Rightarrow> pyval \<Rightarrow> string" where
  "plain_err_text Getitem_call c v = ''list index out of range''"
| "plain_err_text Int_call c v = int_err_text c v"
| "plain_err_text Float_call c v = float_err_text c v"
| "plain_err_text Timedelta_call c v = timedelta_err_text v"

definition plain_lib :: pylib where
  "plain_lib =
     \<lparr> str_upper = map upper_char,
       str_lower = map lower_char,
       int_of_str = plain_int_of_str,
       float_of_str = (\<lambda>s. map_option (\<lambda>n. Finite (of_int n)) (plain_int_of_str s)),
       float_of_big_int = (\<lambda>n. if \<bar>n\<bar> < 2 ^ 1023 then Some (Finite (of_int n)) else None),
       json_loads = (\<lambda>s. Inl (Exc JSONDecodeError ''Expecting value: line 1 column 1 (char 0)'')),
       err_text = plain_err_text \<rparr>"

text \<open>Sample rows: seven cells that every parser converts, and a batch with an empty row.\<close>

definition sample_row :: "pyval list" where
  "sample_row =
     [PDatetime 1700000000, PInt 3, PInt 2, PInt 1, PFloat (Finite 12.5), PInt 4,
      PFloat (Finite 99.5)]"

definition sample_rows :: "pyval list list" where
  "sample_rows = [sample_row, [], sample_row]"

definition index_error :: exc where
  "index_error = Exc IndexError ''list index out of range''"

text \<open>Rows that are malformed for every parser: a string that is not a numeral, a list.\<close>

definition abc_row :: "pyval list" where
  "abc_row =
     [PDatetime 1700000000, PStr ''abc'', PInt 2, PStr ''abc'', PFloat (Finite 12.5), PInt 4,
      PFloat (Finite 99.5)]"

definition abc_error :: exc where
  "abc_error = Exc ValueError (''invalid literal for int() with base 10: '' @ sq @ ''abc'' @ sq)"

definition abc_rows :: "pyval list list" where
  "abc_rows = [sample_row, abc_row, sample_row]"

definition list_row :: "pyval list" where
  "list_row =
     [PDatetime 1700000000, PList [PInt 1], PInt 2, PList [PInt 1], PFloat (Finite 12.5),
      PInt 4, PFloat (Finite 99.5)]"


text \<open>Sample environments, a fresh client manager and three behaviours of the backend.\<close>

definition qa_env :: "string \<Rightarrow> string option" where
  "qa_env =
     map_of [(''QA_SUBSCRIPTION_ID'', ''sub-1''), (''QA_RESOURCE_GROUP'', ''rg-1''),
             (''QA_APP_INSIGHTS_NAME'', ''ai-1'')]"

definition qa_env_without_rg :: "string \<Rightarrow> string option" where
  "qa_env_without_rg =
     map_of [(''QA_SUBSCRIPTION_ID'', ''sub-1''), (''QA_APP_INSIGHTS_NAME'', ''ai-1'')]"

definition qa_config :: EnvironmentConfig where
  "qa_config = \<lparr> subscription_id = ''sub-1'', resource_group = ''rg-1'',
                 app_insights_name = ''ai-1'' \<rparr>"

definition fresh_manager :: AzureClientManager where
  "fresh_manager = \<lparr> config = qa_config, cached_web_client = None, cached_logs_client = None \<rparr>"

definition boom :: exc where
  "boom = Exc HttpResponseError ''boom''"

text \<open>Every call of the backend fails, the clients themselves can be built.\<close>

definition failing_azure :: azure where
  "failing_azure =
     \<lparr> az_WebSiteManagementClient = Inr Handle,
       az_LogsQueryClient = Inr Handle,
       az_query_resource = (\<lambda>rid q t. Inl boom),
       az_list_by_resource_group = (\<lambda>rg. Inl boom),
       az_list_functions = (\<lambda>rg n. Inl boom),
       az_get = (\<lambda>rg n. Inl boom),
       az_list_application_settings = (\<lambda>rg n. Inl boom) \<rparr>"

text \<open>No client can be built: the constructors raise \<open>ClientAuthenticationError\<close>.\<close>

definition denied :: exc where
  "denied = Exc ClientAuthenticationError ''denied''"

definition unauthenticated_azure :: azure where
  "unauthenticated_azure =
     failing_azure \<lparr> az_WebSiteManagementClient := Inl denied, az_LogsQueryClient := Inl denied \<rparr>"

text \<open>Every query comes back with status \<open>PARTIAL\<close>.\<close>

definition partial_azure :: azure where
  "partial_azure =
     failing_azure \<lparr> az_query_resource := (\<lambda>rid q t. Inr \<lparr> status = PARTIAL, tables = [] \<rparr>) \<rparr>"

text \<open>The site exists, its settings cannot be read.\<close>

definition sample_site :: Site where
  "sample_site =
     \<lparr> site_name = ''app-1'', site_resource_group = PStr ''rg-1'',
       site_location = PStr ''westeurope'', site_kind = Some ''functionapp,linux'',
       site_state = PStr ''Running'', default_host_name = PStr ''app-1.azurewebsites.net'',
       site_config = None \<rparr>"

definition settings_failing_azure :: azure where
  "settings_failing_azure = failing_azure \<lparr> az_get := (\<lambda>rg n. Inr sample_site) \<rparr>"

text \<open>Every query succeeds with one table of one Information row.\<close>

definition started_row :: "pyval list" where
  "started_row =
     [PDatetime 1700000000, PInt 1, PStr ''Function started'', PStr ''Fn'', PStr ''op-1'']"



section \<open>The row loops\<close>

lemma and_then_simps [simp]:
  "and_then (Inl e) f = Inl e"
  "and_then (Inr x) f = f x"
  by (simp_all add: and_then_def)

lemmas row_defs = getitem_def int_or_0_def float_or_0_def or_unknown_def py_or_def
  timestamp_of_def raise_def

lemmas plain_defs = plain_lib_def plain_int_of_str_def int_err_text_def float_err_text_def
  py_repr_def repr_char_def

lemmas text_defs = plain_defs Let_def sq_def

lemma parsed_of_simps [simp]:
  "parsed_of conv [] = []"
  "parsed_of conv (r # rs) = (case conv r of Inr x \<Rightarrow> [x] | Inl e \<Rightarrow> []) @ parsed_of conv rs"
  by (simp_all add: parsed_of_def)

lemma warnings_of_simps [simp]:
  "warnings_of conv label [] = []"
  "warnings_of conv label (r # rs) =
     (case conv r of Inr x \<Rightarrow> [] | Inl e \<Rightarrow> [label @ exc_msg e]) @ warnings_of conv label rs"
  by (simp_all add: warnings_of_def)

lemma parsed_of_append: "parsed_of conv (xs @ ys) = parsed_of conv xs @ parsed_of conv ys"
  by (simp add: parsed_of_def)

lemma warnings_of_append:
  "warnings_of conv label (xs @ ys) = warnings_of conv label xs @ warnings_of conv label ys"
  by (simp add: warnings_of_def)

text \<open>A batch whose failures are all caught: the loop returns, with one warning per failure.\<close>

lemma parse_loop_all_caught:
  "all_caught conv rows \<Longrightarrow>
     parse_loop conv label rows out ws
       = (ws @ warnings_of conv label rows, Inr (out @ parsed_of conv rows))"
  by (induction rows arbitrary: out ws) (auto simp: all_caught_def split: sum.splits)

lemma error_loop_all_caught:
  "all_caught (error_row L) rows \<Longrightarrow>
     error_loop L rows errs t ws
       = (ws @ warnings_of (error_row L) ''Failed to parse error row: '' rows,
          Inr (errs @ parsed_of (error_row L) rows,
               t + sum_list (map count (parsed_of (error_row L) rows))))"
  by (induction rows arbitrary: errs t ws) (auto simp: all_caught_def split: sum.splits)


lemma error_loop_returns:
  "error_loop L rows errs t ws = (ws', Inr (errs', t')) \<Longrightarrow>
     errs' = errs @ parsed_of (error_row L) rows
     \<and> t' = t + sum_list (map count (parsed_of (error_row L) rows))"
proof (induction rows arbitrary: errs t ws)
  case Nil
  then show ?case by simp
next
  case (Cons row rows)
  show ?case
  proof (cases "error_row L row")
    case (Inr info)
    with Cons.prems
    have "error_loop L rows (errs @ [info]) (t + count info) ws = (ws', Inr (errs', t'))"
      by simp
    from Cons.IH [OF this] Inr show ?thesis by simp
  next
    case (Inl e)
    with Cons.prems have "caught e"
      by (auto split: if_splits)
    with Cons.prems Inl have
      "error_loop L rows errs t (ws @ [''Failed to parse error row: '' @ exc_msg e])
         = (ws', Inr (errs', t'))"
      by simp
    from Cons.IH [OF this] Inl show ?thesis by simp
  qed
qed

text \<open>Batches with one row whose failure is caught.\<close>

lemma converts_rows:
  "list_all (converts conv) xs \<Longrightarrow>
     warnings_of conv label xs = [] \<and> map Inr (parsed_of conv xs) = map conv xs
     \<and> all_caught conv xs"
  by (induction xs) (auto simp: converts_def all_caught_def split: sum.splits)

lemma one_caught_failure_rows:
  assumes "one_caught_failure conv rows k e"
  shows "all_caught conv rows"
    and "warnings_of conv label rows = [label @ exc_msg e]"
    and "parsed_of conv rows = parsed_of conv (others k rows)"
    and "map Inr (parsed_of conv (others k rows)) = map conv (others k rows)"
proof -
  from assms have k: "k < length rows" and bad: "conv (rows ! k) = Inl e" and c: "caught e"
    and ok: "list_all (converts conv) (others k rows)"
    by (simp_all add: one_caught_failure_def)
  from ok have ok1: "list_all (converts conv) (take k rows)"
    and ok2: "list_all (converts conv) (drop (Suc k) rows)"
    by (simp_all add: others_def)
  have split: "rows = take k rows @ [rows ! k] @ drop (Suc k) rows"
    using k by (simp add: id_take_nth_drop [symmetric])
  have "all_caught conv (take k rows @ [rows ! k] @ drop (Suc k) rows)"
    using converts_rows [OF ok1] converts_rows [OF ok2] bad c
    by (simp add: all_caught_def)
  with split show "all_caught conv rows" by simp
  have "warnings_of conv label (take k rows @ [rows ! k] @ drop (Suc k) rows)
          = [label @ exc_msg e]"
    using converts_rows [OF ok1, of label] converts_rows [OF ok2, of label] bad
    by (simp add: warnings_of_append)
  with split show "warnings_of conv label rows = [label @ exc_msg e]" by simp
  have "parsed_of conv (take k rows @ [rows ! k] @ drop (Suc k) rows)
          = parsed_of conv (others k rows)"
    using bad by (simp add: parsed_of_append others_def)
  with split show "parsed_of conv rows = parsed_of conv (others k rows)" by simp
  from converts_rows [OF ok]
  show "map Inr (parsed_of conv (others k rows)) = map conv (others k rows)"
    by simp
qed

lemma parse_loop_one_caught_failure:
  assumes "one_caught_failure conv rows k e"
  shows "\<exists>out. parse_loop conv label rows [] [] = ([label @ exc_msg e], Inr out)
           \<and> map Inr out = map conv (others k rows)"
  using one_caught_failure_rows [OF assms] parse_loop_all_caught [of conv rows label "[]" "[]"]
  by simp

lemma error_analysis_one_caught_failure:
  assumes "one_caught_failure (error_row L) rows k e"
  shows "\<exists>ea. parse_error_analysis_response L rows app h
                = ([''Failed to parse error row: '' @ exc_msg e], Inr ea)
           \<and> map Inr (errors ea) = map (error_row L) (others k rows)"
  using one_caught_failure_rows [OF assms] error_loop_all_caught [of L rows "[]" 0 "[]"]
  by (simp add: parse_error_analysis_response_def)

text \<open>The sample rows.\<close>

lemma sample_error: "error_row plain_lib sample_row =
   Inr \<lparr> e_function_name = PDatetime 1700000000, e_exception_type = PInt 3,
         e_exception_message = PInt 2, count = 1 \<rparr>"
  by (simp add: error_row_def sample_row_def row_defs)

lemma empty_row:
  "log_row plain_lib [] = Inl index_error"
  "metrics_row plain_lib [] = Inl index_error"
  "error_row plain_lib [] = Inl index_error"
  "performance_row plain_lib [] = Inl index_error"
  "timeline_row plain_lib [] = Inl index_error"
  by (simp_all add: log_row_def metrics_row_def error_row_def performance_row_def
      timeline_row_def custom_props_of_def row_defs plain_defs index_error_def)

lemma caught_index_error: "caught index_error"
  by (simp add: caught_def index_error_def)

section \<open>Cells, columns and rows\<close>

text \<open>
  What the built-ins do with a value agrees with its verdict: a good value converts, a
  rejected one raises an exception that the handler of the loops catches, an unguarded
  one raises \<open>OverflowError\<close>, which the handler does not name.
\<close>

lemma outcome_simps [simp]:
  "outcome (Inl e) = Some e"
  "outcome (Inr x) = None"
  by (simp_all add: outcome_def)

lemma caught_classes [simp]:
  "caught (Exc IndexError t)"
  "caught (Exc TypeError t)"
  "caught (Exc ValueError t)"
  "\<not> caught (Exc OverflowError t)"
  by (simp_all add: caught_def)

lemma int_verdict_good: "int_verdict L v = Good \<Longrightarrow> outcome (py_int L v) = None"
  by (induction L v rule: int_verdict.induct) (auto simp: raise_def split: option.splits if_splits)

lemma int_verdict_rejected:
  "int_verdict L v = Rejected \<Longrightarrow> \<exists>e. outcome (py_int L v) = Some e \<and> caught e"
  by (induction L v rule: int_verdict.induct) (auto simp: raise_def split: option.splits if_splits)

lemma int_verdict_unguarded:
  "int_verdict L v = Unguarded \<Longrightarrow>
     py_int L v = Inl (Exc OverflowError (err_text L Int_call OverflowError v))"
  by (induction L v rule: int_verdict.induct) (auto simp: raise_def split: option.splits if_splits)

lemma float_verdict_good: "float_verdict L v = Good \<Longrightarrow> outcome (py_float L v) = None"
  by (induction L v rule: float_verdict.induct)
    (auto simp: raise_def split: option.splits if_splits)

lemma float_verdict_rejected:
  "float_verdict L v = Rejected \<Longrightarrow> \<exists>e. outcome (py_float L v) = Some e \<and> caught e"
  by (induction L v rule: float_verdict.induct)
    (auto simp: raise_def split: option.splits if_splits)

lemma severity_outcome:
  "outcome (severity_label L v) = (if v = PNone then None else outcome (py_int L v))"
  by (cases "py_int L v") (simp_all add: severity_label_def)

lemma classify_good: "classify L c v = Good \<Longrightarrow> convert L c v = None"
  by (cases c)
    (simp_all add: py_or_def int_verdict_good float_verdict_good severity_outcome
       split: if_splits)

lemma classify_rejected:
  "classify L c v = Rejected \<Longrightarrow> \<exists>e. convert L c v = Some e \<and> caught e"
  by (cases c)
    (simp_all add: py_or_def int_verdict_rejected float_verdict_rejected severity_outcome
       split: if_splits)

text \<open>Reading the cells of the columns in turn.\<close>

lemma verdicts_simps [simp]:
  "verdicts L [] row = []"
  "verdicts L cs [] = []"
  "verdicts L (c # cs) (v # vs) = classify L c v # verdicts L cs vs"
  by (simp_all add: verdicts_def)

lemma reads_good:
  "i + length cs \<le> length row \<Longrightarrow>
     list_all (\<lambda>d. d = Good) (verdicts L cs (drop i row)) \<Longrightarrow> reads L row i cs = None"
proof (induction cs arbitrary: i)
  case Nil
  then show ?case by simp
next
  case (Cons c cs)
  from Cons.prems(1) have i: "i < length row" by simp
  then have d: "drop i row = row ! i # drop (Suc i) row"
    by (simp add: Cons_nth_drop_Suc)
  with Cons.prems(2) have g: "classify L c (row ! i) = Good"
    and rest: "list_all (\<lambda>d. d = Good) (verdicts L cs (drop (Suc i) row))"
    by simp_all
  from Cons.prems(1) have "Suc i + length cs \<le> length row" by simp
  from Cons.IH [OF this rest] classify_good [OF g] i show ?case
    by (simp add: getitem_def)
qed

lemma reads_bad:
  "i \<le> length row \<Longrightarrow>
     list_all (\<lambda>d. d \<noteq> Unguarded) (verdicts L cs (drop i row)) \<Longrightarrow>
     length row < i + length cs \<or> \<not> list_all (\<lambda>d. d = Good) (verdicts L cs (drop i row)) \<Longrightarrow>
     \<exists>e. reads L row i cs = Some e \<and> caught e"
proof (induction cs arbitrary: i)
  case Nil
  then show ?case by simp
next
  case (Cons c cs)
  show ?case
  proof (cases "i < length row")
    case False
    then have "getitem L row i = Inl (Exc IndexError (err_text L Getitem_call IndexError (PList row)))"
      by (simp add: getitem_def raise_def)
    then show ?thesis by simp
  next
    case True
    then have d: "drop i row = row ! i # drop (Suc i) row"
      by (simp add: Cons_nth_drop_Suc)
    with Cons.prems(2) have u: "classify L c (row ! i) \<noteq> Unguarded"
      and rest: "list_all (\<lambda>d. d \<noteq> Unguarded) (verdicts L cs (drop (Suc i) row))"
      by simp_all
    show ?thesis
    proof (cases "classify L c (row ! i)")
      case Good
      with Cons.prems(3) d
      have "length row < Suc i + length cs
              \<or> \<not> list_all (\<lambda>d. d = Good) (verdicts L cs (drop (Suc i) row))"
        by auto
      note * = this
      from True have "Suc i \<le> length row" by simp
      from Cons.IH [OF this rest *] classify_good [OF Good] True show ?thesis
        by (simp add: getitem_def)
    next
      case Rejected
      from classify_rejected [OF this] True show ?thesis
        by (auto simp: getitem_def)
    next
      case Unguarded
      with u show ?thesis by simp
    qed
  qed
qed

text \<open>
  The exception of each row conversion, if any, is the first exception of reading the
  cells of its columns (for a log row, after the custom properties).
\<close>

lemma step_end: "outcome (Inr x) = reads L row i []"
  by simp

lemma step_pass:
  "(\<And>v. outcome (k v) = reads L row (Suc i) cs) \<Longrightarrow>
     outcome (and_then (getitem L row i) k) = reads L row i (Pass_through # cs)"
  by (cases "getitem L row i") simp_all

lemma step_unknown:
  "(\<And>v. outcome (k v) = reads L row (Suc i) cs) \<Longrightarrow>
     outcome (and_then (or_unknown L row i) k) = reads L row i (Pass_through # cs)"
  by (cases "getitem L row i") (simp_all add: or_unknown_def)

lemma step_int:
  "(\<And>n. outcome (k n) = reads L row (Suc i) cs) \<Longrightarrow>
     outcome (and_then (int_or_0 L row i) k) = reads L row i (Int_column # cs)"
proof (cases "getitem L row i")
  case (Inl e)
  then show ?thesis by (simp add: int_or_0_def)
next
  case (Inr v)
  assume "\<And>n. outcome (k n) = reads L row (Suc i) cs"
  with Inr show ?thesis
    by (cases "py_int L (py_or v (PInt 0))") (simp_all add: int_or_0_def)
qed

lemma step_float:
  "(\<And>x. outcome (k x) = reads L row (Suc i) cs) \<Longrightarrow>
     outcome (and_then (float_or_0 L row i) k) = reads L row i (Float_column # cs)"
proof (cases "getitem L row i")
  case (Inl e)
  then show ?thesis by (simp add: float_or_0_def)
next
  case (Inr v)
  assume "\<And>x. outcome (k x) = reads L row (Suc i) cs"
  with Inr show ?thesis
    by (cases "py_float L (py_or v (PInt 0))") (simp_all add: float_or_0_def)
qed

lemma step_severity:
  "(\<And>s. outcome (k s) = reads L row (Suc i) cs) \<Longrightarrow>
     outcome (and_then (getitem L row i) (\<lambda>v. and_then (severity_label L v) k))
       = reads L row i (Severity_column # cs)"
proof (cases "getitem L row i")
  case (Inl e)
  then show ?thesis by simp
next
  case (Inr v)
  assume "\<And>s. outcome (k s) = reads L row (Suc i) cs"
  with Inr show ?thesis
    by (cases "severity_label L v") simp_all
qed

lemmas steps = step_end step_pass step_unknown step_int step_float

lemmas nat_indices = eval_nat_numeral BitM.simps One_nat_def

lemma metrics_reads: "outcome (metrics_row L row) = reads L row 0 metrics_schema"
  unfolding metrics_row_def metrics_schema_def nat_indices by (intro steps)

lemma error_reads: "outcome (error_row L row) = reads L row 0 error_schema"
  unfolding error_row_def error_schema_def nat_indices by (intro steps)

lemma performance_reads: "outcome (performance_row L row) = reads L row 0 performance_schema"
  unfolding performance_row_def performance_schema_def nat_indices by (intro steps)

lemma timeline_reads: "outcome (timeline_row L row) = reads L row 0 timeline_schema"
  unfolding timeline_row_def timeline_schema_def nat_indices by (intro steps)

lemma props_ok: "props_cell_ok L row \<Longrightarrow> \<exists>p. custom_props_of L row = Inr p"
  by (auto simp: props_cell_ok_def custom_props_of_def split: pyval.splits sum.splits)

lemma log_reads:
  assumes "props_cell_ok L row"
  shows "outcome (log_row L row) = reads L row 0 log_schema"
proof -
  from props_ok [OF assms] obtain p where p: "custom_props_of L row = Inr p" ..
  have "outcome
          (and_then (getitem L row 0) (\<lambda>r0.
           and_then (getitem L row (Suc 0)) (\<lambda>r1.
           and_then (severity_label L r1) (\<lambda>lvl.
           and_then (getitem L row (Suc (Suc 0))) (\<lambda>r2.
           and_then (getitem L row (Suc (Suc (Suc 0)))) (\<lambda>r3.
           and_then (getitem L row (Suc (Suc (Suc (Suc 0))))) (\<lambda>r4.
             Inr \<lparr> timestamp = timestamp_of r0, level = lvl, message = py_or r2 (PStr []),
                   function_name = r3, invocation_id = r4, exception_type = PNone,
                   exception_message = PNone, custom_properties = p \<rparr>)))))))
        = reads L row 0
            [Pass_through, Severity_column, Pass_through, Pass_through, Pass_through]"
    by (intro step_pass step_severity step_end)
  then show ?thesis
    by (simp add: log_row_def log_schema_def p nat_indices)
qed

text \<open>A well-formed row converts; the conversion of a malformed row raises and is caught.\<close>

lemma well_formed_converts:
  assumes "outcome (conv row) = reads L row 0 schema" and "well_formed_row L schema row"
  shows "converts conv row"
proof -
  from assms(2) have "reads L row 0 schema = None"
    by (intro reads_good) (simp_all add: well_formed_row_def)
  with assms(1) show ?thesis
    by (cases "conv row") (simp_all add: converts_def)
qed

lemma malformed_fails:
  assumes "outcome (conv row) = reads L row 0 schema" and "malformed_row L schema row"
  shows "\<exists>e. conv row = Inl e \<and> caught e"
proof -
  from assms(2) have "\<exists>e. reads L row 0 schema = Some e \<and> caught e"
    by (intro reads_bad) (simp_all add: malformed_row_def)
  with assms(1) show ?thesis
    by (cases "conv row") auto
qed

lemma exactly_one_failure:
  assumes "\<And>row. good row \<Longrightarrow> converts conv row"
    and "\<And>row. bad row \<Longrightarrow> \<exists>e. conv row = Inl e \<and> caught e"
    and "exactly_one bad good rows k"
  shows "\<exists>e. one_caught_failure conv rows k e"
proof -
  from assms(3) have k: "k < length rows" and b: "bad (rows ! k)"
    and g: "list_all good (others k rows)"
    by (simp_all add: exactly_one_def)
  from assms(2) [OF b] obtain e where "conv (rows ! k) = Inl e" and "caught e" by blast
  moreover from g assms(1) have "list_all (converts conv) (others k rows)"
    by (simp add: list_all_iff)
  ultimately show ?thesis using k by (auto simp: one_caught_failure_def)
qed

lemma schema_batch:
  assumes "\<And>row. outcome (conv row) = reads L row 0 schema"
    and "exactly_one (malformed_row L schema) (well_formed_row L schema) rows k"
  shows "\<exists>e. one_caught_failure conv rows k e"
  using assms(2)
  by (rule exactly_one_failure [rotated 2])
    (auto intro: well_formed_converts [where conv = conv] malformed_fails [where conv = conv] assms(1))

lemma log_batch:
  assumes "exactly_one (malformed_log L) (well_formed_log L) rows k"
  shows "\<exists>e. one_caught_failure (log_row L) rows k e"
  using assms
  by (rule exactly_one_failure [rotated 2])
    (auto simp: well_formed_log_def malformed_log_def
       intro: well_formed_converts malformed_fails log_reads)

text \<open>The conversion of the severity on the integers and on a missing value.\<close>

lemma severity_label_opt: "severity_label L (opt_int s) = Inr (spec_severity_label s)"
  by (cases s)
    (simp_all add: severity_label_def severity_map_def opt_int_def spec_severity_label_def)

lemma severity_mapping_total:
  "severity_label L (PInt 0) = Inr ''Verbose''
   \<and> severity_label L (PInt 1) = Inr ''Information''
   \<and> severity_label L (PInt 2) = Inr ''Warning''
   \<and> severity_label L (PInt 3) = Inr ''Error''
   \<and> severity_label L (PInt n) =
        Inr (if n = 0 then ''Verbose'' else if n = 1 then ''Information''
             else if n = 2 then ''Warning'' else if n = 3 then ''Error'' else ''Unknown'')
   \<and> severity_label L PNone = Inr ''Unknown''
   \<and> parse_log_response L [[ts, opt_int s, msg, f, i]] =
        ([], Inr [\<lparr> timestamp = timestamp_of ts, level = spec_severity_label s,
                     message = py_or msg (PStr []), function_name = f, invocation_id = i,
                     exception_type = PNone, exception_message = PNone,
                     custom_properties = PNone \<rparr>])"
proof -
  have "log_row L [ts, opt_int s, msg, f, i] =
        Inr \<lparr> timestamp = timestamp_of ts, level = spec_severity_label s,
              message = py_or msg (PStr []), function_name = f, invocation_id = i,
              exception_type = PNone, exception_message = PNone,
              custom_properties = PNone \<rparr>"
    by (simp add: log_row_def custom_props_of_def getitem_def severity_label_opt)
  then have "parse_log_response L [[ts, opt_int s, msg, f, i]] =
        ([], Inr [\<lparr> timestamp = timestamp_of ts, level = spec_severity_label s,
                     message = py_or msg (PStr []), function_name = f, invocation_id = i,
                     exception_type = PNone, exception_message = PNone,
                     custom_properties = PNone \<rparr>])"
    by (simp add: parse_log_response_def)
  moreover have "severity_label L (PInt k) =
        Inr (if k = 0 then ''Verbose'' else if k = 1 then ''Information''
             else if k = 2 then ''Warning'' else if k = 3 then ''Error'' else ''Unknown'')"
    for k
    by (simp add: severity_label_def severity_map_def)
  moreover have "severity_label L PNone = Inr ''Unknown''"
    by (simp add: severity_label_def)
  ultimately show ?thesis by simp
qed

text \<open>The verdicts of the sample rows.\<close>

lemmas schema_defs = log_schema_def metrics_schema_def error_schema_def performance_schema_def
  timeline_schema_def

lemma sample_verdicts:
  "well_formed_log plain_lib sample_row"
  "well_formed_row plain_lib metrics_schema sample_row"
  "well_formed_row plain_lib error_schema sample_row"
  "well_formed_row plain_lib performance_schema sample_row"
  "well_formed_row plain_lib timeline_schema sample_row"
  by (simp_all add: well_formed_log_def well_formed_row_def props_cell_ok_def schema_defs
      sample_row_def)

lemma abc_verdicts:
  "malformed_log plain_lib abc_row"
  "malformed_row plain_lib metrics_schema abc_row"
  "malformed_row plain_lib error_schema abc_row"
  "malformed_row plain_lib performance_schema abc_row"
  "malformed_row plain_lib timeline_schema abc_row"
  by (simp_all add: malformed_log_def malformed_row_def props_cell_ok_def schema_defs
      abc_row_def plain_defs)

lemma other_kinds:
  "malformed_row plain_lib metrics_schema list_row"
  "malformed_row plain_lib metrics_schema []"
  by (simp_all add: malformed_row_def schema_defs list_row_def)

lemma abc_fails:
  "log_row plain_lib abc_row = Inl abc_error"
  "metrics_row plain_lib abc_row = Inl abc_error"
  "error_row plain_lib abc_row = Inl abc_error"
  "performance_row plain_lib abc_row = Inl abc_error"
  "timeline_row plain_lib abc_row = Inl abc_error"
  by (simp_all add: log_row_def metrics_row_def error_row_def performance_row_def
      timeline_row_def custom_props_of_def severity_label_def abc_row_def abc_error_def
      row_defs text_defs)

text \<open>
  An unguarded value, such as an infinite float in an integer column, is outside both
  notions: its exception leaves the loop and the parser.
\<close>

lemma overflow_escapes:
  "parse_metrics_response L [[ts, PFloat PosInf, b, c, d, e]]
     = ([], Inl (Exc OverflowError (err_text L Int_call OverflowError (PFloat PosInf))))"
  by (simp add: parse_metrics_response_def metrics_row_def row_defs)

section \<open>Properties of the response parser\<close>

text \<open>
  C1. Whenever \<open>parse_error_analysis_response\<close> returns an \<open>ErrorAnalysis\<close>, its
  \<open>total_errors\<close> is the sum of the \<open>count\<close> fields of its \<open>errors\<close> list and its
  \<open>unique_error_types\<close> is the length of that list; the list holds exactly the records of
  the rows that convert, so the rows that fail are in neither the list nor the sum. It
  does return when every failing row fails with an exception the handler catches, and
  an empty batch yields a total of 0 and an empty list.
\<close>

theorem error_analysis_summation:
  "(\<forall>ea. snd (parse_error_analysis_response L rows app h) = Inr ea \<longrightarrow>
       total_errors ea = sum_list (map count (errors ea))
       \<and> unique_error_types ea = int (length (errors ea))
       \<and> errors ea = parsed_of (error_row L) rows)
   \<and> (all_caught (error_row L) rows \<longrightarrow>
        (\<exists>ea. snd (parse_error_analysis_response L rows app h) = Inr ea))
   \<and> parse_error_analysis_response L [] app h =
        ([], Inr \<lparr> errors = [], total_errors = 0, unique_error_types = 0,
                    time_range_hours = h, function_app_name = app \<rparr>)"
proof (intro conjI allI impI)
  fix ea
  assume r: "snd (parse_error_analysis_response L rows app h) = Inr ea"
  obtain ws res where l: "error_loop L rows [] 0 [] = (ws, res)"
    by (cases "error_loop L rows [] 0 []")
  with r obtain errs t where res: "res = Inr (errs, t)"
    and ea: "ea = \<lparr> errors = errs, total_errors = t, unique_error_types = int (length errs),
                     time_range_hours = h, function_app_name = app \<rparr>"
    by (cases res) (auto simp: parse_error_analysis_response_def)
  from error_loop_returns [of L rows "[]" 0 "[]" ws errs t] l res
  have "errs = parsed_of (error_row L) rows" and "t = sum_list (map count errs)"
    by simp_all
  with ea show "total_errors ea = sum_list (map count (errors ea))"
    and "unique_error_types ea = int (length (errors ea))"
    and "errors ea = parsed_of (error_row L) rows"
    by simp_all
next
  assume "all_caught (error_row L) rows"
  from error_loop_all_caught [OF this, of "[]" 0 "[]"]
  show "\<exists>ea. snd (parse_error_analysis_response L rows app h) = Inr ea"
    by (simp add: parse_error_analysis_response_def)
next
  show "parse_error_analysis_response L [] app h =
        ([], Inr \<lparr> errors = [], total_errors = 0, unique_error_types = 0,
                    time_range_hours = h, function_app_name = app \<rparr>)"
    by (simp add: parse_error_analysis_response_def)
qed

theorem error_analysis_summation_witness:
  "all_caught (error_row plain_lib) sample_rows
   \<and> snd (parse_error_analysis_response plain_lib sample_rows ''app'' 24) =
       Inr \<lparr> errors = [\<lparr> e_function_name = PDatetime 1700000000, e_exception_type = PInt 3,
                          e_exception_message = PInt 2, count = 1 \<rparr>,
                        \<lparr> e_function_name = PDatetime 1700000000, e_exception_type = PInt 3,
                          e_exception_message = PInt 2, count = 1 \<rparr>],
             total_errors = 2, unique_error_types = 2,
             time_range_hours = 24, function_app_name = ''app'' \<rparr>"
proof -
  have c: "all_caught (error_row plain_lib) sample_rows"
    by (simp add: all_caught_def sample_rows_def sample_error empty_row caught_index_error)
  with error_analysis_summation [of plain_lib sample_rows "''app''" 24]
  obtain ea where ea: "snd (parse_error_analysis_response plain_lib sample_rows ''app'' 24) = Inr ea"
    and "total_errors ea = sum_list (map count (errors ea))"
    and "unique_error_types ea = int (length (errors ea))"
    and "errors ea = parsed_of (error_row plain_lib) sample_rows"
    by blast
  moreover have "time_range_hours ea = 24" and "function_app_name ea = ''app''"
    using ea by (auto simp: parse_error_analysis_response_def split: prod.splits sum.splits)
  ultimately have
    "ea = \<lparr> errors = [\<lparr> e_function_name = PDatetime 1700000000, e_exception_type = PInt 3,
                        e_exception_message = PInt 2, count = 1 \<rparr>,
                      \<lparr> e_function_name = PDatetime 1700000000, e_exception_type = PInt 3,
                        e_exception_message = PInt 2, count = 1 \<rparr>],
           total_errors = 2, unique_error_types = 2,
           time_range_hours = 24, function_app_name = ''app'' \<rparr>"
    by (simp add: sample_rows_def sample_error empty_row)
  with c ea show ?thesis by simp
qed

text \<open>
  C2. The conversion of the severity cell is as claimed on the integers and on a missing
  value (lemma \<open>severity_mapping_total\<close>), but it is not total: for a severity that is an
  infinite float \<open>int\<close> raises \<open>OverflowError\<close>, which the handler of the row loop does not
  name, and the exception leaves \<open>parse_log_response\<close>; the entries of the rows parsed
  before are lost with it.
\<close>

theorem infinite_severity_escapes:
  "severity_label L (PFloat PosInf)
     = Inl (Exc OverflowError (err_text L Int_call OverflowError (PFloat PosInf)))
   \<and> parse_log_response L [[ts, PFloat PosInf, msg, f, i]]
     = ([], Inl (Exc OverflowError (err_text L Int_call OverflowError (PFloat PosInf))))
   \<and> parse_log_response L [[ts0, PInt 1, msg0, f0, i0], [ts, PFloat PosInf, msg, f, i]]
     = ([], Inl (Exc OverflowError (err_text L Int_call OverflowError (PFloat PosInf))))
   \<and> parse_log_response plain_lib
        [[PDatetime 1700000000, PFloat PosInf, PStr ''m'', PStr ''Fn'', PStr ''op-1'']]
     = ([], Inl (Exc OverflowError ''cannot convert float infinity to integer''))"
proof -
  have s: "severity_label M (PFloat PosInf)
     = Inl (Exc OverflowError (err_text M Int_call OverflowError (PFloat PosInf)))" for M
    by (simp add: severity_label_def raise_def)
  have r: "log_row M [a, PFloat PosInf, b, c, d]
     = Inl (Exc OverflowError (err_text M Int_call OverflowError (PFloat PosInf)))" for M a b c d
    by (simp add: log_row_def custom_props_of_def getitem_def s)
  have g: "\<exists>entry. log_row L [ts0, PInt 1, msg0, f0, i0] = Inr entry"
    by (simp add: log_row_def custom_props_of_def getitem_def severity_label_def
        severity_map_def)
  have t: "err_text plain_lib Int_call OverflowError (PFloat PosInf)
             = ''cannot convert float infinity to integer''"
    by (simp add: plain_defs)
  from g obtain entry where "log_row L [ts0, PInt 1, msg0, f0, i0] = Inr entry" ..
  with s r r [of plain_lib] t show ?thesis
    by (simp add: parse_log_response_def)
qed

text \<open>
  C3, as the code has it. A row is malformed for a parser when it has fewer cells than the
  parser reads or a numeric column holds a rejected value (a value of a wrong type, a NaN,
  a string that is not a numeral), and well-formed when every column the parser reads is
  there with a good value; cells beyond these columns and the values of the columns that
  are passed through are not examined. In a batch in which row \<open>k\<close> is malformed and every
  other row is well-formed, each of the five parsers returns, does not raise, gives
  exactly one warning, the one for the exception of row \<open>k\<close>, and returns the records of
  all the other rows in the order of the rows.
\<close>

theorem malformed_row_skipped:
  "(exactly_one (malformed_log L) (well_formed_log L) rows k \<longrightarrow>
      (\<exists>e out. log_row L (rows ! k) = Inl e
         \<and> parse_log_response L rows = ([''Failed to parse log row: '' @ exc_msg e], Inr out)
         \<and> map Inr out = map (log_row L) (others k rows)))
   \<and> (exactly_one (malformed_row L metrics_schema) (well_formed_row L metrics_schema) rows k \<longrightarrow>
      (\<exists>e out. metrics_row L (rows ! k) = Inl e
         \<and> parse_metrics_response L rows
             = ([''Failed to parse metrics row: '' @ exc_msg e], Inr out)
         \<and> map Inr out = map (metrics_row L) (others k rows)))
   \<and> (exactly_one (malformed_row L error_schema) (well_formed_row L error_schema) rows k \<longrightarrow>
      (\<exists>e ea. error_row L (rows ! k) = Inl e
         \<and> parse_error_analysis_response L rows app h
             = ([''Failed to parse error row: '' @ exc_msg e], Inr ea)
         \<and> map Inr (errors ea) = map (error_row L) (others k rows)))
   \<and> (exactly_one (malformed_row L performance_schema) (well_formed_row L performance_schema)
        rows k \<longrightarrow>
      (\<exists>e out. performance_row L (rows ! k) = Inl e
         \<and> parse_function_performance_response L rows
             = ([''Failed to parse performance row: '' @ exc_msg e], Inr out)
         \<and> map Inr out = map (performance_row L) (others k rows)))
   \<and> (exactly_one (malformed_row L timeline_schema) (well_formed_row L timeline_schema) rows k \<longrightarrow>
      (\<exists>e out. timeline_row L (rows ! k) = Inl e
         \<and> parse_timeline_response L rows
             = ([''Failed to parse timeline row: '' @ exc_msg e], Inr out)
         \<and> map Inr out = map (timeline_row L) (others k rows)))"
proof (intro conjI impI)
  assume "exactly_one (malformed_log L) (well_formed_log L) rows k"
  from log_batch [OF this] obtain e where e: "one_caught_failure (log_row L) rows k e" ..
  from parse_loop_one_caught_failure [OF e, of "''Failed to parse log row: ''"] e
  show "\<exists>e out. log_row L (rows ! k) = Inl e
         \<and> parse_log_response L rows = ([''Failed to parse log row: '' @ exc_msg e], Inr out)
         \<and> map Inr out = map (log_row L) (others k rows)"
    by (auto simp: parse_log_response_def one_caught_failure_def)
next
  assume "exactly_one (malformed_row L metrics_schema) (well_formed_row L metrics_schema) rows k"
  from schema_batch [OF metrics_reads this]
  obtain e where e: "one_caught_failure (metrics_row L) rows k e" ..
  from parse_loop_one_caught_failure [OF e, of "''Failed to parse metrics row: ''"] e
  show "\<exists>e out. metrics_row L (rows ! k) = Inl e
         \<and> parse_metrics_response L rows
             = ([''Failed to parse metrics row: '' @ exc_msg e], Inr out)
         \<and> map Inr out = map (metrics_row L) (others k rows)"
    by (auto simp: parse_metrics_response_def one_caught_failure_def)
next
  assume "exactly_one (malformed_row L error_schema) (well_formed_row L error_schema) rows k"
  from schema_batch [OF error_reads this]
  obtain e where e: "one_caught_failure (error_row L) rows k e" ..
  from error_analysis_one_caught_failure [OF e, of app h] e
  show "\<exists>e ea. error_row L (rows ! k) = Inl e
         \<and> parse_error_analysis_response L rows app h
             = ([''Failed to parse error row: '' @ exc_msg e], Inr ea)
         \<and> map Inr (errors ea) = map (error_row L) (others k rows)"
    by (auto simp: one_caught_failure_def)
next
  assume "exactly_one (malformed_row L performance_schema)
            (well_formed_row L performance_schema) rows k"
  from schema_batch [OF performance_reads this]
  obtain e where e: "one_caught_failure (performance_row L) rows k e" ..
  from parse_loop_one_caught_failure [OF e, of "''Failed to parse performance row: ''"] e
  show "\<exists>e out. performance_row L (rows ! k) = Inl e
         \<and> parse_function_performance_response L rows
             = ([''Failed to parse performance row: '' @ exc_msg e], Inr out)
         \<and> map Inr out = map (performance_row L) (others k rows)"
    by (auto simp: parse_function_performance_response_def one_caught_failure_def)
next
  assume "exactly_one (malformed_row L timeline_schema) (well_formed_row L timeline_schema) rows k"
  from schema_batch [OF timeline_reads this]
  obtain e where e: "one_caught_failure (timeline_row L) rows k e" ..
  from parse_loop_one_caught_failure [OF e, of "''Failed to parse timeline row: ''"] e
  show "\<exists>e out. timeline_row L (rows ! k) = Inl e
         \<and> parse_timeline_response L rows
             = ([''Failed to parse timeline row: '' @ exc_msg e], Inr out)
         \<and> map Inr out = map (timeline_row L) (others k rows)"
    by (auto simp: parse_timeline_response_def one_caught_failure_def)
qed

theorem malformed_row_skipped_witness:
  "exactly_one (malformed_log plain_lib) (well_formed_log plain_lib) abc_rows 1
   \<and> exactly_one (malformed_row plain_lib metrics_schema)
        (well_formed_row plain_lib metrics_schema) abc_rows 1
   \<and> exactly_one (malformed_row plain_lib error_schema)
        (well_formed_row plain_lib error_schema) abc_rows 1
   \<and> exactly_one (malformed_row plain_lib performance_schema)
        (well_formed_row plain_lib performance_schema) abc_rows 1
   \<and> exactly_one (malformed_row plain_lib timeline_schema)
        (well_formed_row plain_lib timeline_schema) abc_rows 1
   \<and> malformed_row plain_lib metrics_schema list_row
   \<and> malformed_row plain_lib metrics_schema []
   \<and> (\<exists>out. parse_log_response plain_lib abc_rows
               = ([''Failed to parse log row: invalid literal for int() with base 10: ''
                     @ sq @ ''abc'' @ sq], Inr out)
         \<and> map Inr out = map (log_row plain_lib) [sample_row, sample_row])
   \<and> (\<exists>out. parse_metrics_response plain_lib abc_rows
               = ([''Failed to parse metrics row: invalid literal for int() with base 10: ''
                     @ sq @ ''abc'' @ sq], Inr out)
         \<and> map Inr out = map (metrics_row plain_lib) [sample_row, sample_row])
   \<and> (\<exists>ea. parse_error_analysis_response plain_lib abc_rows ''app'' 24
               = ([''Failed to parse error row: invalid literal for int() with base 10: ''
                     @ sq @ ''abc'' @ sq], Inr ea)
         \<and> map Inr (errors ea) = map (error_row plain_lib) [sample_row, sample_row])
   \<and> (\<exists>out. parse_function_performance_response plain_lib abc_rows
               = ([''Failed to parse performance row: invalid literal for int() with base 10: ''
                     @ sq @ ''abc'' @ sq], Inr out)
         \<and> map Inr out = map (performance_row plain_lib) [sample_row, sample_row])
   \<and> (\<exists>out. parse_timeline_response plain_lib abc_rows
               = ([''Failed to parse timeline row: invalid literal for int() with base 10: ''
                     @ sq @ ''abc'' @ sq], Inr out)
         \<and> map Inr out = map (timeline_row plain_lib) [sample_row, sample_row])"
proof -
  have o: "others (Suc 0) abc_rows = [sample_row, sample_row]"
    and n: "abc_rows ! Suc 0 = abc_row"
    by (simp_all add: others_def abc_rows_def)
  have h: "exactly_one (malformed_log plain_lib) (well_formed_log plain_lib) abc_rows 1"
    "exactly_one (malformed_row plain_lib metrics_schema)
        (well_formed_row plain_lib metrics_schema) abc_rows 1"
    "exactly_one (malformed_row plain_lib error_schema)
        (well_formed_row plain_lib error_schema) abc_rows 1"
    "exactly_one (malformed_row plain_lib performance_schema)
        (well_formed_row plain_lib performance_schema) abc_rows 1"
    "exactly_one (malformed_row plain_lib timeline_schema)
        (well_formed_row plain_lib timeline_schema) abc_rows 1"
    by (simp_all add: exactly_one_def o n sample_verdicts abc_verdicts)
      (simp_all add: abc_rows_def)
  have e: "log_row plain_lib abc_row = Inl abc_error"
    "metrics_row plain_lib abc_row = Inl abc_error"
    "error_row plain_lib abc_row = Inl abc_error"
    "performance_row plain_lib abc_row = Inl abc_error"
    "timeline_row plain_lib abc_row = Inl abc_error"
    by (rule abc_fails)+
  have m: "exc_msg abc_error = ''invalid literal for int() with base 10: '' @ sq @ ''abc'' @ sq"
    by (simp add: abc_error_def)
  from malformed_row_skipped [of plain_lib abc_rows 1 "''app''" 24] h
  show ?thesis
    by (simp add: o n e m other_kinds sq_def)
qed

text \<open>
  The claim C3 itself fails for rows of wrong arity or type that have the cells the
  parser reads: the metrics parser returns the record of a row of seven cells, and the
  log parser the entry of a row whose message is an integer and whose function name is a
  list, both with no warning.
\<close>

theorem wrong_arity_or_type_not_skipped:
  "length sample_row = 7
   \<and> parse_metrics_response plain_lib [sample_row] =
       ([], Inr [\<lparr> m_timestamp = Of_row (PDatetime 1700000000), total_invocations = 3,
                    successful_invocations = 2, failed_invocations = 1,
                    avg_duration_ms = Finite 12.5, unique_functions = 4 \<rparr>])
   \<and> parse_log_response plain_lib
        [[PDatetime 1700000000, PInt 1, PInt 5, PList [PInt 7], PNone]] =
       ([], Inr [\<lparr> timestamp = Of_row (PDatetime 1700000000), level = ''Information'',
                    message = PInt 5, function_name = PList [PInt 7],
                    invocation_id = PNone, exception_type = PNone,
                    exception_message = PNone, custom_properties = PNone \<rparr>])"
  by (simp add: parse_metrics_response_def metrics_row_def parse_log_response_def log_row_def
      custom_props_of_def severity_label_def severity_map_def sample_row_def row_defs)




section \<open>Properties of the query builder\<close>

lemma join_contains: "x \<in> set xs \<Longrightarrow> sublist x (join sep xs)"
proof (induction sep xs rule: join.induct)
  case (1 sep)
  then show ?case by simp
next
  case (2 sep y)
  then show ?case by simp
next
  case (3 sep y z zs)
  show ?case
  proof (cases "x = y")
    case True
    then show ?thesis by simp
  next
    case False
    with 3 have "sublist x (join sep (z # zs))" by simp
    then obtain ps ss where "join sep (z # zs) = ps @ x @ ss"
      by (auto simp: sublist_def)
    then have "join sep (y # z # zs) = (y @ sep @ ps) @ x @ ss" by simp
    then show ?thesis unfolding sublist_def by blast
  qed
qed

lemma sublist_trans: "sublist xs ys \<Longrightarrow> sublist ys zs \<Longrightarrow> sublist xs zs"
  by (rule sublist_order.order_trans)

lemma part_in_query:
  "sublist x p \<Longrightarrow> p \<in> set (query_parts app h lv fn lm noise) \<Longrightarrow>
     sublist x (build_logs_query app h lv fn lm noise)"
  unfolding build_logs_query_def by (blast intro: sublist_trans join_contains)

lemma level_digits:
  "severity_clause ''Error'' = ''| where severityLevel == 3''"
  "severity_clause ''Warning'' = ''| where severityLevel == 2''"
  "severity_clause ''Information'' = ''| where severityLevel == 1''"
  "severity_clause ''Verbose'' = ''| where severityLevel == 0''"
  by (simp_all add: severity_clause_def level_map_def)

lemma empty_level_is_no_level:
  "query_parts app h (Some []) fn lm noise = query_parts app h None fn lm noise"
  by (simp add: query_parts_def given_def)

text \<open>
  C4, as the code has it. For a level that is not the empty string the rendered query
  contains the severity clause of that level: with the digit 3, 2, 1 or 0 for \<open>Error\<close>,
  \<open>Warning\<close>, \<open>Information\<close> or \<open>Verbose\<close>, and with the level string itself for any other
  level. For the subject \<open>foo\<close>, 3 hours and the level \<open>Error\<close> the query contains
  \<open>severityLevel == 3\<close>, \<open>cloud_RoleName contains 'foo'\<close> and \<open>ago(3h)\<close>. The empty string
  is no level: the query is the one rendered without a level.
\<close>

theorem severity_clause_rendered:
  "(lv \<noteq> [] \<longrightarrow>
      sublist (severity_clause lv) (build_logs_query app h (Some lv) fn lm noise))
   \<and> severity_clause ''Error'' = ''| where severityLevel == 3''
   \<and> severity_clause ''Warning'' = ''| where severityLevel == 2''
   \<and> severity_clause ''Information'' = ''| where severityLevel == 1''
   \<and> severity_clause ''Verbose'' = ''| where severityLevel == 0''
   \<and> (lv \<notin> {''Error'', ''Warning'', ''Information'', ''Verbose''} \<longrightarrow>
        severity_clause lv = ''| where severityLevel == '' @ lv)
   \<and> sublist ''severityLevel == 3'' (build_logs_query ''foo'' 3 (Some ''Error'') fn lm noise)
   \<and> sublist (''cloud_RoleName contains '' @ sq @ ''foo'' @ sq)
        (build_logs_query ''foo'' 3 (Some ''Error'') fn lm noise)
   \<and> sublist ''ago(3h)'' (build_logs_query ''foo'' 3 (Some ''Error'') fn lm noise)
   \<and> build_logs_query app h (Some []) fn lm noise = build_logs_query app h None fn lm noise"
proof -
  have 1: "sublist (severity_clause lv) (build_logs_query app h (Some lv) fn lm noise)"
    if "lv \<noteq> []"
    using that by (intro part_in_query [of _ "severity_clause lv"]) (simp_all add: query_parts_def given_def)
  have 2: "severity_clause lv = ''| where severityLevel == '' @ lv"
    if "lv \<notin> {''Error'', ''Warning'', ''Information'', ''Verbose''}"
    using that by (simp add: severity_clause_def level_map_def)
  have 3: "sublist ''severityLevel == 3'' (build_logs_query ''foo'' 3 (Some ''Error'') fn lm noise)"
    by (rule part_in_query [of _ "''| where severityLevel == 3''"])
      (simp_all add: query_parts_def given_def level_digits sublist_Cons_right)
  have 4: "sublist (''cloud_RoleName contains '' @ sq @ ''foo'' @ sq)
        (build_logs_query ''foo'' 3 (Some ''Error'') fn lm noise)"
  proof (rule part_in_query)
    show "sublist (''cloud_RoleName contains '' @ sq @ ''foo'' @ sq)
            (''| where '' @ (''cloud_RoleName contains '' @ sq @ ''foo'' @ sq))"
      by (rule sublist_append_leftI)
    show "''| where '' @ (''cloud_RoleName contains '' @ sq @ ''foo'' @ sq)
            \<in> set (query_parts ''foo'' 3 (Some ''Error'') fn lm noise)"
      by (simp add: query_parts_def)
  qed
  have 5: "sublist ''ago(3h)'' (build_logs_query ''foo'' 3 (Some ''Error'') fn lm noise)"
    by (rule part_in_query [of _ "''| where timestamp > ago('' @ str_of_int 3 @ ''h)''"])
      (simp_all add: query_parts_def str_of_int_def digits.simps sublist_Cons_right)
  have 6: "build_logs_query app h (Some []) fn lm noise = build_logs_query app h None fn lm noise"
    by (simp add: build_logs_query_def empty_level_is_no_level)
  from 1 2 3 4 5 6 level_digits show ?thesis by blast
qed

theorem severity_clause_rendered_witness:
  "''Critical'' \<noteq> []
   \<and> ''Critical'' \<notin> {''Error'', ''Warning'', ''Information'', ''Verbose''}
   \<and> sublist ''| where severityLevel == Critical''
        (build_logs_query ''foo'' 3 (Some ''Critical'') None 100 True)"
proof -
  have h: "''Critical'' \<noteq> []"
    "''Critical'' \<notin> {''Error'', ''Warning'', ''Information'', ''Verbose''}"
    by simp_all
  from severity_clause_rendered [of "''Critical''" "''foo''" 3 None 100 True] h
  have a: "sublist (severity_clause ''Critical'')
             (build_logs_query ''foo'' 3 (Some ''Critical'') None 100 True)"
    and b: "severity_clause ''Critical'' = ''| where severityLevel == '' @ ''Critical''"
    by blast+
  from a have "sublist ''| where severityLevel == Critical''
        (build_logs_query ''foo'' 3 (Some ''Critical'') None 100 True)"
    unfolding b by simp
  with h show ?thesis by blast
qed

text \<open>
  The claim C4 itself fails for the level \<open>""\<close>: a level argument is given, and the query
  has no severity clause at all.
\<close>

theorem empty_level_renders_no_clause:
  "\<not> sublist ''severityLevel =='' (build_logs_query ''foo'' 3 (Some []) None 100 True)"
  by (simp add: build_logs_query_def query_parts_def given_def noise_clauses_def NL_def sq_def
      dq_def str_of_int_def digits.simps sublist_Cons_right)

section \<open>Properties of the configuration\<close>

lemma repr_one: "repr_names [k] = ''['' @ sq @ k @ sq @ '']''"
  by (simp add: repr_names_def)

lemma config_complete:
  assumes "getenv (str_upper L env @ ''_SUBSCRIPTION_ID'') = Some s" and "s \<noteq> []"
    and "getenv (str_upper L env @ ''_RESOURCE_GROUP'') = Some r" and "r \<noteq> []"
    and "getenv (str_upper L env @ ''_APP_INSIGHTS_NAME'') = Some a" and "a \<noteq> []"
  shows "get_environment_config L getenv env =
           Inr \<lparr> subscription_id = s, resource_group = r, app_insights_name = a \<rparr>"
  using assms by (simp add: get_environment_config_def given_def)

lemma config_missing:
  assumes "getenv (str_upper L env @ ''_SUBSCRIPTION_ID'') = sub"
    and "getenv (str_upper L env @ ''_RESOURCE_GROUP'') = rg"
    and "getenv (str_upper L env @ ''_APP_INSIGHTS_NAME'') = ai"
    and "\<not> (given sub \<and> given rg \<and> given ai)"
  shows "get_environment_config L getenv env =
           Inl (Exc ValueError
                 (''Missing required environment variables for '' @ env @ '': ''
                    @ repr_names (missing_fields sub rg ai)))"
  using assms by (auto simp: get_environment_config_def missing_fields_def Let_def)

lemma facade_wraps:
  assumes "str_lower L env \<in> set environment_values"
    and "get_environment_config L getenv (str_lower L env) = Inl (Exc ValueError reason)"
  shows "sdk_load_config L getenv env = Inl (Exc ConfigurationError (''Configuration error: '' @ reason))"
  using assms by (simp add: sdk_load_config_def)

lemma qa_upper: "str_upper plain_lib ''qa'' = ''QA''"
  by (simp add: plain_lib_def upper_char_def)

text \<open>
  C6, as the code has it. When the three variables of an environment are set and not
  empty, \<open>get_environment_config\<close> returns exactly their values. When one of them is unset
  or empty, it raises a \<open>ValueError\<close> whose message lists exactly the fields that are
  missing; it is the constructor of the facade that turns this \<open>ValueError\<close> into a
  \<open>ConfigurationError\<close> with the same list.
\<close>

theorem environment_config_complete_or_value_error:
  "(getenv (str_upper L env @ ''_SUBSCRIPTION_ID'') = Some s \<and> s \<noteq> []
      \<and> getenv (str_upper L env @ ''_RESOURCE_GROUP'') = Some r \<and> r \<noteq> []
      \<and> getenv (str_upper L env @ ''_APP_INSIGHTS_NAME'') = Some a \<and> a \<noteq> [] \<longrightarrow>
      get_environment_config L getenv env =
        Inr \<lparr> subscription_id = s, resource_group = r, app_insights_name = a \<rparr>)
   \<and> (getenv (str_upper L env @ ''_SUBSCRIPTION_ID'') = sub
      \<and> getenv (str_upper L env @ ''_RESOURCE_GROUP'') = rg
      \<and> getenv (str_upper L env @ ''_APP_INSIGHTS_NAME'') = ai
      \<and> \<not> (given sub \<and> given rg \<and> given ai) \<longrightarrow>
      get_environment_config L getenv env =
        Inl (Exc ValueError
              (''Missing required environment variables for '' @ env @ '': ''
                 @ repr_names (missing_fields sub rg ai))))
   \<and> (str_lower L env' \<in> set environment_values
      \<and> get_environment_config L getenv (str_lower L env') = Inl (Exc ValueError reason) \<longrightarrow>
      sdk_load_config L getenv env' =
        Inl (Exc ConfigurationError (''Configuration error: '' @ reason)))"
  using config_complete [of getenv L env s r a] config_missing [of getenv L env sub rg ai]
    facade_wraps [of L env' getenv reason]
  by blast

theorem environment_config_complete_or_value_error_witness:
  "get_environment_config plain_lib qa_env ''qa'' = Inr qa_config
   \<and> \<not> (given (Some ''sub-1'') \<and> given None \<and> given (Some ''ai-1''))
   \<and> get_environment_config plain_lib qa_env_without_rg ''qa'' =
       Inl (Exc ValueError
             (''Missing required environment variables for qa: ['' @ sq @ ''resource_group''
                @ sq @ '']''))
   \<and> str_lower plain_lib ''OptumQA'' \<in> set environment_values
   \<and> sdk_load_config plain_lib (\<lambda>v. None) ''OptumQA'' =
       Inl (Exc ConfigurationError
             (''Configuration error: Missing required environment variables for optumqa: [''
                @ sq @ ''subscription_id'' @ sq @ '', '' @ sq @ ''resource_group'' @ sq @ '', ''
                @ sq @ ''app_insights_name'' @ sq @ '']''))"
proof -
  have low: "str_lower plain_lib ''OptumQA'' = ''optumqa''"
    by (simp add: plain_lib_def lower_char_def)
  have v: "get_environment_config plain_lib (\<lambda>v. None) ''optumqa'' =
       Inl (Exc ValueError
             (''Missing required environment variables for optumqa: [''
                @ sq @ ''subscription_id'' @ sq @ '', '' @ sq @ ''resource_group'' @ sq @ '', ''
                @ sq @ ''app_insights_name'' @ sq @ '']''))"
    by (simp add: get_environment_config_def given_def repr_names_def)
  have g: "\<not> (given (Some ''sub-1'') \<and> given None \<and> given (Some ''ai-1''))"
    by (simp add: given_def)
  from environment_config_complete_or_value_error
         [of qa_env plain_lib "''qa''" "''sub-1''" "''rg-1''" "''ai-1''"
             "Some ''sub-1''" "Some ''rg-1''" "Some ''ai-1''"]
  have 1: "get_environment_config plain_lib qa_env ''qa'' = Inr qa_config"
    by (simp add: qa_upper qa_env_def qa_config_def)
  from environment_config_complete_or_value_error
         [of qa_env_without_rg plain_lib "''qa''" s r a
             "Some ''sub-1''" None "Some ''ai-1''" "''OptumQA''"] g
  have 2: "get_environment_config plain_lib qa_env_without_rg ''qa'' =
       Inl (Exc ValueError
             (''Missing required environment variables for qa: ['' @ sq @ ''resource_group''
                @ sq @ '']''))"
    by (simp add: qa_upper qa_env_without_rg_def missing_fields_def given_def repr_one)
  from environment_config_complete_or_value_error
         [of "\<lambda>v. None" plain_lib env s r a sub rg ai "''OptumQA''"] low v
  have 3: "sdk_load_config plain_lib (\<lambda>v. None) ''OptumQA'' =
       Inl (Exc ConfigurationError
             (''Configuration error: Missing required environment variables for optumqa: [''
                @ sq @ ''subscription_id'' @ sq @ '', '' @ sq @ ''resource_group'' @ sq @ '', ''
                @ sq @ ''app_insights_name'' @ sq @ '']''))"
    by (simp add: environment_values_def)
  from 1 2 3 g low show ?thesis by (simp add: environment_values_def)
qed

text \<open>
  The claim C6 itself fails on the kind of the error: with the resource-group variable
  of \<open>qa\<close> unset, \<open>get_environment_config\<close> raises a \<open>ValueError\<close>, not a
  \<open>ConfigurationError\<close>.
\<close>

theorem missing_resource_group_is_value_error:
  "get_environment_config plain_lib qa_env_without_rg ''qa'' =
     Inl (Exc ValueError
           (''Missing required environment variables for qa: ['' @ sq @ ''resource_group''
              @ sq @ '']''))"
  by (simp add: get_environment_config_def qa_upper qa_env_without_rg_def given_def
      repr_names_def)

section \<open>The services\<close>

lemmas service_defs = get_logs_def get_error_logs_def search_logs_def get_function_logs_def
  get_metrics_def analyze_errors_def get_function_performance_def get_timeline_analysis_def
  logs_of_response_def handle_with_def as_returned_def parsed_as_def

lemma query_error_class [simp]:
  "exc_cls (query_error1 t1 e) = QueryError"
  "exc_cls (query_error2 t1 t2 e) = QueryError"
  "exc_cls (query_error3 t1 t2 t3 e) = QueryError"
  by (simp_all add: query_error1_def query_error2_def query_error3_def)

lemma query_error_shape:
  "\<exists>reason. query_error1 t1 e = Exc QueryError reason"
  "\<exists>reason. query_error2 t1 t2 e = Exc QueryError reason"
  "\<exists>reason. query_error3 t1 t2 t3 e = Exc QueryError reason"
  by (simp_all add: query_error1_def query_error2_def query_error3_def)

lemma web_client_config [simp]: "config (snd (web_client A m)) = config m"
  by (simp add: web_client_def split: option.splits sum.splits)

lemma logs_client_config [simp]: "config (snd (logs_client A m)) = config m"
  by (simp add: logs_client_def split: option.splits sum.splits)

lemma resource_id_config:
  "config m' = config m \<Longrightarrow> get_app_insights_resource_id m' = get_app_insights_resource_id m"
  by (simp add: get_app_insights_resource_id_def)

lemma run_query_reaches_backend:
  assumes "- 999999999 \<le> h div 24" and "h div 24 \<le> 999999999"
    and "fst (logs_client A m) = Inr client"
  shows "fst (run_query L A m q h) = az_query_resource A (get_app_insights_resource_id m) q h"
proof -
  obtain r m' where lc: "logs_client A m = (r, m')"
    by (cases "logs_client A m")
  with assms(3) have r: "r = Inr client" by simp
  from lc logs_client_config [of A m] have "config m' = config m" by simp
  then have "get_app_insights_resource_id m' = get_app_insights_resource_id m"
    by (rule resource_id_config)
  with assms(1,2) lc r show ?thesis
    by (simp add: run_query_def timedelta_hours_def)
qed

text \<open>The four outcomes of a query operation.\<close>

lemma call_backend_failure:
  "fst (run_query L A m (query_of c) (hours_of c)) = Inl x \<Longrightarrow>
     \<exists>reason. call L A m c = Inl (Exc QueryError reason)"
  by (cases c; cases "run_query L A m (query_of c) (hours_of c)")
    (simp_all add: service_defs arg_or_def query_error_shape)

lemma call_without_tables:
  "answered L A m c response \<Longrightarrow> \<not> has_tables response \<Longrightarrow>
     call L A m c = Inr (empty_result c)"
  by (cases c; cases "run_query L A m (query_of c) (hours_of c)")
    (simp_all add: answered_def service_defs arg_or_def)

lemma call_parsed:
  "answered L A m c response \<Longrightarrow> has_tables response \<Longrightarrow>
     parse_for L c (hd (tables response)) = Inr r \<Longrightarrow> call L A m c = Inr r"
  by (cases c; cases "run_query L A m (query_of c) (hours_of c)")
    (auto simp: answered_def service_defs arg_or_def split: sum.splits)

lemma call_parser_failure:
  "answered L A m c response \<Longrightarrow> has_tables response \<Longrightarrow>
     parse_for L c (hd (tables response)) = Inl x \<Longrightarrow>
     \<exists>reason. call L A m c = Inl (Exc QueryError reason)"
  by (cases c; cases "run_query L A m (query_of c) (hours_of c)")
    (auto simp: answered_def service_defs arg_or_def query_error_shape split: sum.splits)

lemma call_raises_query_error:
  assumes "call L A m c = Inl e"
  shows "exc_cls e = QueryError"
proof (cases "fst (run_query L A m (query_of c) (hours_of c))")
  case (Inl x)
  from call_backend_failure [OF this] assms show ?thesis by auto
next
  case (Inr response)
  then have a: "answered L A m c response" by (simp add: answered_def)
  show ?thesis
  proof (cases "has_tables response")
    case False
    from call_without_tables [OF a this] assms show ?thesis by simp
  next
    case True
    show ?thesis
    proof (cases "parse_for L c (hd (tables response))")
      case (Inl x)
      from call_parser_failure [OF a True this] assms show ?thesis by auto
    next
      case (Inr r)
      from call_parsed [OF a True this] assms show ?thesis by simp
    qed
  qed
qed


text \<open>The operations of \<open>FunctionAppService\<close>.\<close>

lemma metadata_raises_query_error:
  "fst (list_function_apps L A m) = Inl e1 \<Longrightarrow> exc_cls e1 = QueryError"
  "fst (list_functions A m app) = Inl e2 \<Longrightarrow> exc_cls e2 = QueryError"
  "fst (get_function_app_info A m app) = Inl e3 \<Longrightarrow> exc_cls e3 = QueryError"
  by (auto simp: list_function_apps_def list_functions_def get_function_app_info_def
      handle_with_def split: prod.splits sum.splits if_splits)

lemma metadata_client_failure:
  assumes "fst (web_client A m) = Inl x"
  shows "\<exists>reason. fst (list_function_apps L A m) = Inl (Exc QueryError reason)"
    and "\<exists>reason. fst (list_functions A m app) = Inl (Exc QueryError reason)"
    and "\<exists>reason. fst (get_function_app_info A m app) = Inl (Exc QueryError reason)"
  using assms
  by (cases "web_client A m";
      simp add: list_function_apps_def list_functions_def get_function_app_info_def
        handle_with_def query_error_shape)+

lemma web_client_state:
  "web_client A m = (r, m') \<Longrightarrow> config m' = config m"
  using web_client_config [of A m] by simp

lemma metadata_backend_failure:
  assumes "fst (web_client A m) = Inr client"
  shows "az_list_by_resource_group A (resource_group (config m)) = Inl x \<Longrightarrow>
           \<exists>reason. fst (list_function_apps L A m) = Inl (Exc QueryError reason)"
    and "az_list_functions A (resource_group (config m)) app = Inl x \<Longrightarrow>
           \<exists>reason. fst (list_functions A m app) = Inl (Exc QueryError reason)"
    and "az_get A (resource_group (config m)) app = Inl x \<Longrightarrow>
           \<exists>reason. fst (get_function_app_info A m app) = Inl (Exc QueryError reason)"
proof -
  obtain r m' where w: "web_client A m = (r, m')"
    by (cases "web_client A m")
  with assms have r: "r = Inr client" by simp
  from web_client_state [OF w] have c: "config m' = config m" .
  show "az_list_by_resource_group A (resource_group (config m)) = Inl x \<Longrightarrow>
           \<exists>reason. fst (list_function_apps L A m) = Inl (Exc QueryError reason)"
    using w r c by (simp add: list_function_apps_def handle_with_def query_error_shape)
  show "az_list_functions A (resource_group (config m)) app = Inl x \<Longrightarrow>
           \<exists>reason. fst (list_functions A m app) = Inl (Exc QueryError reason)"
    using w r c by (simp add: list_functions_def handle_with_def query_error_shape)
  show "az_get A (resource_group (config m)) app = Inl x \<Longrightarrow>
           \<exists>reason. fst (get_function_app_info A m app) = Inl (Exc QueryError reason)"
    using w r c by (simp add: get_function_app_info_def handle_with_def)
qed

lemma validate_swallows:
  "fst (list_function_apps L A m) = Inl e \<Longrightarrow>
     fst (validate_function_app_exists L A m app) = Inr False"
  by (cases "list_function_apps L A m") (simp add: validate_function_app_exists_def)

lemma settings_swallowed:
  assumes "fst (web_client A m) = Inr client"
    and "az_get A (resource_group (config m)) app = Inr site"
    and "az_list_application_settings A (resource_group (config m)) app = Inl x"
  shows "\<exists>info. fst (get_function_app_info A m app) = Inr info \<and> app_settings info = []"
proof -
  obtain r m' where w: "web_client A m = (r, m')"
    by (cases "web_client A m")
  with assms(1) have r: "r = Inr client" by simp
  from web_client_state [OF w] have c: "config m' = config m" .
  obtain r2 m2 where w2: "web_client A m' = (r2, m2)"
    by (cases "web_client A m'")
  from web_client_state [OF w2] c have c2: "config m2 = config m" by simp
  have "fst (settings_or_empty A m' app) = []"
    using w2 c2 assms(3) by (simp add: settings_or_empty_def split: sum.splits)
  then show ?thesis
    using w r c assms(2)
    by (cases "settings_or_empty A m' app")
      (simp add: get_function_app_info_def handle_with_def)
qed

text \<open>Evaluation at the sample backends.\<close>

lemmas world_defs = failing_azure_def unauthenticated_azure_def partial_azure_def
  settings_failing_azure_def fresh_manager_def boom_def denied_def

lemma sample_clients:
  "fst (logs_client failing_azure fresh_manager) = Inr Handle"
  "fst (logs_client partial_azure fresh_manager) = Inr Handle"
  "fst (web_client failing_azure fresh_manager) = Inr Handle"
  "fst (web_client settings_failing_azure fresh_manager) = Inr Handle"
  "fst (logs_client unauthenticated_azure fresh_manager)
     = Inl (Exc AuthenticationError ''Failed to authenticate logs client: denied'')"
  "fst (web_client unauthenticated_azure fresh_manager)
     = Inl (Exc AuthenticationError ''Failed to authenticate web client: denied'')"
  by (simp_all add: logs_client_def web_client_def world_defs)

lemma sample_windows:
  "timedelta_hours L 1 = Inr 1"
  "timedelta_hours L 24 = Inr 24"
  by (simp_all add: timedelta_hours_def)

lemma sample_run_query:
  "fst (run_query L failing_azure fresh_manager q 24) = Inl boom"
  "fst (run_query L failing_azure fresh_manager q 1) = Inl boom"
  "fst (run_query L partial_azure fresh_manager q 24) = Inr \<lparr> status = PARTIAL, tables = [] \<rparr>"
  "fst (run_query L partial_azure fresh_manager q 1) = Inr \<lparr> status = PARTIAL, tables = [] \<rparr>"
  "fst (run_query L unauthenticated_azure fresh_manager q 1)
     = Inl (Exc AuthenticationError ''Failed to authenticate logs client: denied'')"
  by (simp_all add: run_query_def sample_windows logs_client_def world_defs)

lemma sample_metadata:
  "fst (list_function_apps plain_lib failing_azure fresh_manager)
     = Inl (Exc QueryError ''Failed to list Function Apps: boom'')"
  "fst (list_functions failing_azure fresh_manager ''app-1'')
     = Inl (Exc QueryError ''Failed to list functions: boom'')"
  "fst (get_function_app_info failing_azure fresh_manager ''app-1'')
     = Inl (Exc QueryError ''Failed to get Function App info: boom'')"
  "fst (list_function_apps plain_lib unauthenticated_azure fresh_manager)
     = Inl (Exc QueryError
             ''Unexpected error listing Function Apps: Failed to authenticate web client: denied'')"
  by (simp_all add: list_function_apps_def list_functions_def get_function_app_info_def
      handle_with_def web_client_def query_error3_def world_defs)

lemma sample_get_logs:
  "fst (get_logs L unauthenticated_azure fresh_manager app Omitted lv fn lm)
     = Inl (Exc QueryError
             ''Unexpected error retrieving logs: Failed to authenticate logs client: denied'')"
  "fst (get_logs L failing_azure fresh_manager app Omitted lv fn lm)
     = Inl (Exc QueryError ''Failed to retrieve logs: boom'')"
proof -
  obtain r m' where u: "run_query L unauthenticated_azure fresh_manager
      (get_logs_query app Omitted lv fn lm) 1 = (r, m')"
    by (cases "run_query L unauthenticated_azure fresh_manager (get_logs_query app Omitted lv fn lm) 1")
  with sample_run_query(5) [of L "get_logs_query app Omitted lv fn lm"]
  have "r = Inl (Exc AuthenticationError ''Failed to authenticate logs client: denied'')"
    by simp
  with u show "fst (get_logs L unauthenticated_azure fresh_manager app Omitted lv fn lm)
     = Inl (Exc QueryError
             ''Unexpected error retrieving logs: Failed to authenticate logs client: denied'')"
    by (simp add: service_defs arg_or_def query_error2_def)
  obtain r2 m2 where f: "run_query L failing_azure fresh_manager
      (get_logs_query app Omitted lv fn lm) 1 = (r2, m2)"
    by (cases "run_query L failing_azure fresh_manager (get_logs_query app Omitted lv fn lm) 1")
  with sample_run_query(2) [of L "get_logs_query app Omitted lv fn lm"]
  have "r2 = Inl boom" by simp
  with f show "fst (get_logs L failing_azure fresh_manager app Omitted lv fn lm)
     = Inl (Exc QueryError ''Failed to retrieve logs: boom'')"
    by (simp add: service_defs arg_or_def query_error2_def boom_def)
qed

lemma partial_answers:
  "az_query_resource partial_azure rid q t = Inr \<lparr> status = PARTIAL, tables = [] \<rparr>"
  by (simp add: partial_azure_def)




lemma settings_fail:
  "az_list_application_settings settings_failing_azure rg n = Inl boom"
  by (simp add: settings_failing_azure_def failing_azure_def)

lemma sample_validate:
  "fst (validate_function_app_exists plain_lib failing_azure fresh_manager ''app-1'') = Inr False"
  using sample_metadata(1) by (rule validate_swallows)

lemma sample_info:
  "fst (get_function_app_info settings_failing_azure fresh_manager ''app-1'') =
     Inr \<lparr> info_name = ''app-1'', info_resource_group = PStr ''rg-1'',
           info_location = PStr ''westeurope'', info_kind = Some ''functionapp,linux'',
           info_state = PStr ''Running'', host_name = PStr ''app-1.azurewebsites.net'',
           runtime_version = PNone, app_settings = [] \<rparr>"
  by (simp add: get_function_app_info_def settings_or_empty_def handle_with_def web_client_def
      getattr_or_None_def py_or_def sample_site_def world_defs)



lemma started_row_parsed:
  "parse_log_response L [started_row] =
     ([], Inr [\<lparr> timestamp = Of_row (PDatetime 1700000000), level = ''Information'',
                  message = PStr ''Function started'', function_name = PStr ''Fn'',
                  invocation_id = PStr ''op-1'', exception_type = PNone,
                  exception_message = PNone, custom_properties = PNone \<rparr>])"
  by (simp add: parse_log_response_def log_row_def custom_props_of_def severity_label_def
      severity_map_def started_row_def row_defs)

section \<open>Properties of the services\<close>

text \<open>
  C7. The client manager raises an \<open>AuthenticationError\<close> when the constructor of a
  client raises \<open>ClientAuthenticationError\<close>, but no caller of a service operation sees it:
  the handler \<open>except Exception\<close> of the operation raises a \<open>QueryError\<close> in its place. Here
  no client can be built, and \<open>get_logs\<close> and \<open>list_function_apps\<close> raise \<open>QueryError\<close>.
\<close>

theorem authentication_failure_reported_as_query_error:
  "fst (logs_client unauthenticated_azure fresh_manager)
     = Inl (Exc AuthenticationError ''Failed to authenticate logs client: denied'')
   \<and> fst (get_logs plain_lib unauthenticated_azure fresh_manager ''app-1''
            Omitted Omitted Omitted Omitted)
     = Inl (Exc QueryError
             ''Unexpected error retrieving logs: Failed to authenticate logs client: denied'')
   \<and> fst (list_function_apps plain_lib unauthenticated_azure fresh_manager)
     = Inl (Exc QueryError
             ''Unexpected error listing Function Apps: Failed to authenticate web client: denied'')"
  by (simp add: sample_clients sample_get_logs sample_metadata)

text \<open>
  C8, as the code has it. When the query reaches the backend and comes back with a
  status other than \<open>SUCCESS\<close>, a query operation does not raise: the operations that
  return a list return the empty list, and \<open>analyze_errors\<close> returns an \<open>ErrorAnalysis\<close> with
  no groups and a total of 0. The query reaches the backend when the window is a valid
  \<open>timedelta\<close>, the logs client is there or can be built, and \<open>query_resource\<close> returns.
\<close>

theorem non_success_status_gives_empty_result:
  "(answered L A m c response \<and> status response \<noteq> SUCCESS \<longrightarrow>
      call L A m c = Inr (empty_result c))
   \<and> (- 999999999 \<le> hours_of c div 24 \<and> hours_of c div 24 \<le> 999999999
      \<and> fst (logs_client A m) = Inr client
      \<and> az_query_resource A (get_app_insights_resource_id m) (query_of c) (hours_of c)
           = Inr response \<longrightarrow>
      answered L A m c response)"
proof (intro conjI impI)
  assume "answered L A m c response \<and> status response \<noteq> SUCCESS"
  then show "call L A m c = Inr (empty_result c)"
    by (intro call_without_tables [of L A m c response]) (simp_all add: has_tables_def)
next
  assume "- 999999999 \<le> hours_of c div 24 \<and> hours_of c div 24 \<le> 999999999
      \<and> fst (logs_client A m) = Inr client
      \<and> az_query_resource A (get_app_insights_resource_id m) (query_of c) (hours_of c)
           = Inr response"
  then show "answered L A m c response"
    using run_query_reaches_backend [of "hours_of c" A m client L "query_of c"]
    by (simp add: answered_def)
qed

theorem non_success_status_gives_empty_result_witness:
  "answered plain_lib partial_azure fresh_manager (Get_metrics ''app-1'' Omitted Omitted)
     \<lparr> status = PARTIAL, tables = [] \<rparr>
   \<and> status \<lparr> status = PARTIAL, tables = [] \<rparr> \<noteq> SUCCESS
   \<and> call plain_lib partial_azure fresh_manager (Get_metrics ''app-1'' Omitted Omitted)
       = Inr (Metrics_list [])"
proof -
  have a: "answered plain_lib partial_azure fresh_manager (Get_metrics ''app-1'' Omitted Omitted)
     \<lparr> status = PARTIAL, tables = [] \<rparr>"
    using non_success_status_gives_empty_result
            [of plain_lib partial_azure fresh_manager "Get_metrics ''app-1'' Omitted Omitted"
                "\<lparr> status = PARTIAL, tables = [] \<rparr>" Handle]
    by (simp add: sample_clients arg_or_def partial_answers)
  have s: "status \<lparr> status = PARTIAL, tables = [] \<rparr> \<noteq> SUCCESS"
    by simp
  from non_success_status_gives_empty_result
         [of plain_lib partial_azure fresh_manager "Get_metrics ''app-1'' Omitted Omitted"
             "\<lparr> status = PARTIAL, tables = [] \<rparr>"] a s
  show ?thesis by simp
qed

text \<open>
  The claim C8 itself fails for \<open>analyze_errors\<close>: on a status other than \<open>SUCCESS\<close> it
  returns an \<open>ErrorAnalysis\<close> object, which is not the empty list.
\<close>

theorem analyze_errors_returns_no_list:
  "call plain_lib partial_azure fresh_manager (Analyze_errors ''app-1'' Omitted Omitted)
     = Inr (Analysis \<lparr> errors = [], total_errors = 0, unique_error_types = 0,
                       time_range_hours = 24, function_app_name = ''app-1'' \<rparr>)
   \<and> \<not> is_empty_list (Analysis \<lparr> errors = [], total_errors = 0, unique_error_types = 0,
                                  time_range_hours = 24, function_app_name = ''app-1'' \<rparr>)"
proof -
  have "answered plain_lib partial_azure fresh_manager (Analyze_errors ''app-1'' Omitted Omitted)
     \<lparr> status = PARTIAL, tables = [] \<rparr>"
    by (simp add: answered_def arg_or_def sample_run_query)
  from call_without_tables [OF this] show ?thesis
    by (simp add: has_tables_def arg_or_def)
qed

text \<open>
  C9, as the code has it. A query operation that raises raises one of the three typed
  error kinds, and it does raise when the window, the client, the backend call or the
  parser fails; the same holds for \<open>list_function_apps\<close>, \<open>list_functions\<close> and
  \<open>get_function_app_info\<close> when the client or the backend call fails. Two operations
  catch a failure and return an ordinary value: \<open>validate_function_app_exists\<close> returns
  \<open>False\<close> when listing the apps fails, and \<open>get_function_app_info\<close> returns the info with
  empty settings when only the settings cannot be read.
\<close>

theorem failures_surface_as_typed_errors:
  "(call L A m c = Inl e \<longrightarrow> typed_kind e)
   \<and> (fst (run_query L A m (query_of c) (hours_of c)) = Inl x \<longrightarrow>
        (\<exists>e'. call L A m c = Inl e' \<and> typed_kind e'))
   \<and> (answered L A m c response \<and> has_tables response
        \<and> parse_for L c (hd (tables response)) = Inl x \<longrightarrow>
        (\<exists>e'. call L A m c = Inl e' \<and> typed_kind e'))
   \<and> (fst (list_function_apps L A m) = Inl e1 \<longrightarrow> typed_kind e1)
   \<and> (fst (list_functions A m app) = Inl e2 \<longrightarrow> typed_kind e2)
   \<and> (fst (get_function_app_info A m app) = Inl e3 \<longrightarrow> typed_kind e3)
   \<and> (fst (web_client A m) = Inl x \<longrightarrow>
        (\<exists>e'. fst (list_function_apps L A m) = Inl e' \<and> typed_kind e')
        \<and> (\<exists>e'. fst (list_functions A m app) = Inl e' \<and> typed_kind e')
        \<and> (\<exists>e'. fst (get_function_app_info A m app) = Inl e' \<and> typed_kind e'))
   \<and> (fst (web_client A m) = Inr client
        \<and> az_list_by_resource_group A (resource_group (config m)) = Inl x \<longrightarrow>
        (\<exists>e'. fst (list_function_apps L A m) = Inl e' \<and> typed_kind e'))
   \<and> (fst (web_client A m) = Inr client
        \<and> az_list_functions A (resource_group (config m)) app = Inl x \<longrightarrow>
        (\<exists>e'. fst (list_functions A m app) = Inl e' \<and> typed_kind e'))
   \<and> (fst (web_client A m) = Inr client
        \<and> az_get A (resource_group (config m)) app = Inl x \<longrightarrow>
        (\<exists>e'. fst (get_function_app_info A m app) = Inl e' \<and> typed_kind e'))
   \<and> (fst (list_function_apps L A m) = Inl e1 \<longrightarrow>
        fst (validate_function_app_exists L A m app) = Inr False)
   \<and> (fst (web_client A m) = Inr client
        \<and> az_get A (resource_group (config m)) app = Inr site
        \<and> az_list_application_settings A (resource_group (config m)) app = Inl x \<longrightarrow>
        (\<exists>info. fst (get_function_app_info A m app) = Inr info \<and> app_settings info = []))"
proof -
  have q: "typed_kind (Exc QueryError reason)" for reason
    by (simp add: typed_kind_def)
  have k: "exc_cls y = QueryError \<Longrightarrow> typed_kind y" for y
    by (simp add: typed_kind_def)
  have 1: "call L A m c = Inl e \<longrightarrow> typed_kind e"
    using call_raises_query_error [of L A m c e] k by blast
  have 2: "fst (run_query L A m (query_of c) (hours_of c)) = Inl x \<longrightarrow>
        (\<exists>e'. call L A m c = Inl e' \<and> typed_kind e')"
    using call_backend_failure [of L A m c x] q by blast
  have 3: "answered L A m c response \<and> has_tables response
        \<and> parse_for L c (hd (tables response)) = Inl x \<longrightarrow>
        (\<exists>e'. call L A m c = Inl e' \<and> typed_kind e')"
    using call_parser_failure [of L A m c response x] q by blast
  have 4: "fst (list_function_apps L A m) = Inl e1 \<longrightarrow> typed_kind e1"
    "fst (list_functions A m app) = Inl e2 \<longrightarrow> typed_kind e2"
    "fst (get_function_app_info A m app) = Inl e3 \<longrightarrow> typed_kind e3"
    using metadata_raises_query_error k by blast+
  have 5: "fst (web_client A m) = Inl x \<longrightarrow>
        (\<exists>e'. fst (list_function_apps L A m) = Inl e' \<and> typed_kind e')
        \<and> (\<exists>e'. fst (list_functions A m app) = Inl e' \<and> typed_kind e')
        \<and> (\<exists>e'. fst (get_function_app_info A m app) = Inl e' \<and> typed_kind e')"
    using metadata_client_failure(1) [of A m x L] metadata_client_failure(2) [of A m x app]
      metadata_client_failure(3) [of A m x app] q
    by blast
  have 6: "fst (web_client A m) = Inr client
        \<and> az_list_by_resource_group A (resource_group (config m)) = Inl x \<longrightarrow>
        (\<exists>e'. fst (list_function_apps L A m) = Inl e' \<and> typed_kind e')"
    using metadata_backend_failure(1) [of A m client x L] q by blast
  have 7: "fst (web_client A m) = Inr client
        \<and> az_list_functions A (resource_group (config m)) app = Inl x \<longrightarrow>
        (\<exists>e'. fst (list_functions A m app) = Inl e' \<and> typed_kind e')"
    using metadata_backend_failure(2) [of A m client app x] q by blast
  have 8: "fst (web_client A m) = Inr client
        \<and> az_get A (resource_group (config m)) app = Inl x \<longrightarrow>
        (\<exists>e'. fst (get_function_app_info A m app) = Inl e' \<and> typed_kind e')"
    using metadata_backend_failure(3) [of A m client app x] q by blast
  have 9: "fst (list_function_apps L A m) = Inl e1 \<longrightarrow>
        fst (validate_function_app_exists L A m app) = Inr False"
    using validate_swallows [of L A m e1 app] by blast
  have 10: "fst (web_client A m) = Inr client
        \<and> az_get A (resource_group (config m)) app = Inr site
        \<and> az_list_application_settings A (resource_group (config m)) app = Inl x \<longrightarrow>
        (\<exists>info. fst (get_function_app_info A m app) = Inr info \<and> app_settings info = [])"
    using settings_swallowed [of A m client app site x] by blast
  show ?thesis
    by (intro conjI 1 2 3 4 5 6 7 8 9 10)
qed

theorem failures_surface_as_typed_errors_witness:
  "fst (run_query plain_lib failing_azure fresh_manager
          (query_of (Get_metrics ''app-1'' Omitted Omitted)) 24) = Inl boom
   \<and> (\<exists>e'. call plain_lib failing_azure fresh_manager (Get_metrics ''app-1'' Omitted Omitted)
              = Inl e' \<and> typed_kind e')
   \<and> fst (web_client failing_azure fresh_manager) = Inr Handle
   \<and> az_list_by_resource_group failing_azure (resource_group (config fresh_manager)) = Inl boom
   \<and> (\<exists>e'. fst (list_function_apps plain_lib failing_azure fresh_manager) = Inl e'
              \<and> typed_kind e')
   \<and> fst (validate_function_app_exists plain_lib failing_azure fresh_manager ''app-1'')
       = Inr False
   \<and> fst (web_client settings_failing_azure fresh_manager) = Inr Handle
   \<and> az_get settings_failing_azure (resource_group (config fresh_manager)) ''app-1''
       = Inr sample_site
   \<and> az_list_application_settings settings_failing_azure
        (resource_group (config fresh_manager)) ''app-1'' = Inl boom
   \<and> (\<exists>info. fst (get_function_app_info settings_failing_azure fresh_manager ''app-1'')
                 = Inr info \<and> app_settings info = [])"
proof -
  have r: "fst (run_query plain_lib failing_azure fresh_manager
          (query_of (Get_metrics ''app-1'' Omitted Omitted)) 24) = Inl boom"
    by (rule sample_run_query)
  have w: "fst (web_client failing_azure fresh_manager) = Inr Handle"
    "fst (web_client settings_failing_azure fresh_manager) = Inr Handle"
    by (rule sample_clients)+
  have b: "az_list_by_resource_group failing_azure (resource_group (config fresh_manager))
             = Inl boom"
    by (simp add: failing_azure_def)
  have g: "az_get settings_failing_azure (resource_group (config fresh_manager)) ''app-1''
             = Inr sample_site"
    "az_list_application_settings settings_failing_azure
        (resource_group (config fresh_manager)) ''app-1'' = Inl boom"
    by (simp_all add: settings_failing_azure_def failing_azure_def)
  note f = failures_surface_as_typed_errors
    [of plain_lib failing_azure fresh_manager "Get_metrics ''app-1'' Omitted Omitted"
        "Exc QueryError ''Failed to retrieve metrics: boom''" boom
        "\<lparr> status = PARTIAL, tables = [] \<rparr>"
        "Exc QueryError ''Failed to list Function Apps: boom''" "''app-1''"
        "Exc QueryError ''Failed to list functions: boom''"
        "Exc QueryError ''Failed to get Function App info: boom''" Handle sample_site]
  note s = failures_surface_as_typed_errors
    [of plain_lib settings_failing_azure fresh_manager "Get_metrics ''app-1'' Omitted Omitted"
        "Exc QueryError ''Failed to retrieve metrics: boom''" boom
        "\<lparr> status = PARTIAL, tables = [] \<rparr>"
        "Exc QueryError ''Failed to list Function Apps: boom''" "''app-1''"
        "Exc QueryError ''Failed to list functions: boom''"
        "Exc QueryError ''Failed to get Function App info: boom''" Handle sample_site]
  from f r have 1: "\<exists>e'. call plain_lib failing_azure fresh_manager
      (Get_metrics ''app-1'' Omitted Omitted) = Inl e' \<and> typed_kind e'"
    by (simp add: arg_or_def)
  from f w(1) b have 2: "\<exists>e'. fst (list_function_apps plain_lib failing_azure fresh_manager)
      = Inl e' \<and> typed_kind e'"
    by blast
  from f sample_metadata(1)
  have 3: "fst (validate_function_app_exists plain_lib failing_azure fresh_manager ''app-1'')
       = Inr False"
    by blast
  from s w(2) g
  have 4: "\<exists>info. fst (get_function_app_info settings_failing_azure fresh_manager ''app-1'')
                 = Inr info \<and> app_settings info = []"
    by blast
  from r w b g 1 2 3 4 show ?thesis by blast
qed

text \<open>
  The claim C9 itself fails. With a backend whose every call fails, listing the apps
  raises a \<open>QueryError\<close>, and \<open>validate_function_app_exists\<close> catches it and returns
  \<open>False\<close>; with a backend that cannot read the settings, \<open>get_function_app_info\<close> returns
  the info with empty settings.
\<close>

theorem validate_returns_false_on_failure:
  "fst (list_function_apps plain_lib failing_azure fresh_manager)
     = Inl (Exc QueryError ''Failed to list Function Apps: boom'')
   \<and> fst (validate_function_app_exists plain_lib failing_azure fresh_manager ''app-1'')
     = Inr False
   \<and> az_list_application_settings settings_failing_azure ''rg-1'' ''app-1'' = Inl boom
   \<and> fst (get_function_app_info settings_failing_azure fresh_manager ''app-1'') =
       Inr \<lparr> info_name = ''app-1'', info_resource_group = PStr ''rg-1'',
             info_location = PStr ''westeurope'', info_kind = Some ''functionapp,linux'',
             info_state = PStr ''Running'', host_name = PStr ''app-1.azurewebsites.net'',
             runtime_version = PNone, app_settings = [] \<rparr>"
  by (simp add: sample_metadata sample_validate sample_info settings_fail)




end
